theory Spec2Isabelle
  imports Main "HOL-Library.Multiset"
begin

section \<open>The submit command of the exercism command-line client\<close>

text \<open>
  A shallow embedding of \<^verbatim>\<open>runSubmit\<close> (\<^verbatim>\<open>cmd/submit.go\<close>). The function talks to the
  file system, to the workspace and api packages and to two output streams. Everything it
  calls is a field of an environment record; every call it makes is logged, in program
  order, in a list of events that is returned beside the Go \<^verbatim>\<open>error\<close> value. A claim
  of the form "fails before any network call" is then a statement about that list.
\<close>

subsection \<open>Data\<close>

text \<open>
  Errors the collaborators return. \<^verbatim>\<open>os.IsNotExist\<close> and
  \<^verbatim>\<open>workspace.IsMissingMetadata\<close> are the two tests the source applies to them.
\<close>

datatype exterror = NotExist | MissingMetadata | OtherError string

definition os_IsNotExist :: "exterror \<Rightarrow> bool" where
  "os_IsNotExist e = (e = NotExist)"

definition workspace_IsMissingMetadata :: "exterror \<Rightarrow> bool" where
  "workspace_IsMissingMetadata e = (e = MissingMetadata)"

text \<open>
  The value \<^verbatim>\<open>runSubmit\<close> returns when it fails. \<^verbatim>\<open>ErrorString\<close> is an error made by
  \<^verbatim>\<open>errors.New\<close> or \<^verbatim>\<open>fmt.Errorf\<close> from a message written in \<^verbatim>\<open>submit.go\<close>. The format
  strings \<^verbatim>\<open>msgWelcomePleaseConfigure\<close>, \<^verbatim>\<open>msgRerunConfigure\<close> and \<^verbatim>\<open>msgMissingMetadata\<close>
  are declared elsewhere in the package: an error made from one of them is a constructor
  that carries the arguments of the format. \<^verbatim>\<open>External\<close> is \<^verbatim>\<open>return err\<close>.
\<close>

datatype error =
    ErrWelcomePleaseConfigure string string
  | ErrRerunConfigure string
  | ErrMissingMetadata
  | ErrorString string
  | External exterror

text \<open>\<^verbatim>\<open>os.FileInfo\<close>, as far as the source reads it.\<close>

record fileInfo =
  IsDir :: bool
  Size :: int

text \<open>\<^verbatim>\<open>workspace.Solution\<close>, as far as the source reads it.\<close>

record solution =
  ID :: string
  Exercise :: string
  Track :: string
  IsRequester :: bool
  AutoApprove :: bool
  URL :: string

text \<open>
  \<^verbatim>\<open>workspace.Document\<close>: the source calls its methods \<^verbatim>\<open>Path()\<close> (the path relative to the
  exercise, the declared filename of the part) and \<^verbatim>\<open>Filepath()\<close> (the file that is opened).
\<close>

record document =
  Path :: string
  Filepath :: string

datatype workspace = Workspace string

text \<open>
  An opened \<^verbatim>\<open>*os.File\<close>: what reading it to the end gives, the bytes or a read error.
\<close>

datatype osFile = OsFile "exterror + string"

text \<open>
  The multipart body. \<^verbatim>\<open>mime/multipart\<close> is modelled at the level of parts: the buffer the
  writer writes into holds the parts written so far and whether the closing boundary has
  been written.
\<close>

record part =
  fieldname :: string
  filename :: string
  content :: string

record buffer =
  bodyParts :: "part list"
  bodyTerminated :: bool

record mpWriter =
  wBoundary :: string
  wBody :: buffer

datatype client = Client string string

record request =
  reqMethod :: string
  reqURL :: string
  reqHeader :: "string \<rightharpoonup> string"
  reqBody :: buffer

text \<open>An \<^verbatim>\<open>*http.Response\<close>: what reading its body to the end gives.\<close>

datatype response = Response "exterror + string"

text \<open>Every call with an effect, and every write to \<^verbatim>\<open>Err\<close> and \<^verbatim>\<open>Out\<close>.\<close>

datatype event =
    EvAbs string
  | EvLstat string
  | EvEvalSymlinks string
  | EvWorkspaceNew string
  | EvSolutionDir string
  | EvNewSolution string
  | EvStat string
  | EvNewDocument string string
  | EvErr string
  | EvOut string
  | EvNewWriter
  | EvOpen string
  | EvCreateFormFile string string
  | EvCopy string
  | EvWriterClose buffer
  | EvNewClient string string
  | EvNewRequest string string buffer
  | EvHeaderSet string string
  | EvDo request
  | EvReadFrom

text \<open>
  The environment of one invocation. \<^verbatim>\<open>UserViperConfig\<close> is the key-value store
  \<^verbatim>\<open>cfg.UserViperConfig\<close>, read with \<^verbatim>\<open>GetString\<close> (the empty string for an absent key).
  The other fields are the functions of \<^verbatim>\<open>os\<close>, \<^verbatim>\<open>path/filepath\<close> and of the
  \<^verbatim>\<open>config\<close>, \<^verbatim>\<open>workspace\<close> and \<^verbatim>\<open>api\<close> packages, none of which is part of
  \<^verbatim>\<open>submit.go\<close>. \<^verbatim>\<open>exercise_Filepath dir\<close> is
  \<^verbatim>\<open>workspace.NewExerciseFromDir(dir).Filepath()\<close>; \<^verbatim>\<open>randomBoundary\<close> is the boundary
  \<^verbatim>\<open>multipart.NewWriter\<close> draws; \<^verbatim>\<open>defaultHeader\<close> and \<^verbatim>\<open>newRequestError\<close> are what
  \<^verbatim>\<open>client.NewRequest\<close> puts into the header of a request and whether it fails.
\<close>

record env =
  UserViperConfig :: "string \<Rightarrow> string"
  BinaryName :: string
  config_SettingsURL :: "string \<Rightarrow> string"
  filepath_Abs :: "string \<Rightarrow> exterror + string"
  os_Lstat :: "string \<Rightarrow> exterror + fileInfo"
  filepath_EvalSymlinks :: "string \<Rightarrow> exterror + string"
  workspace_New :: "string \<Rightarrow> exterror + workspace"
  ws_SolutionDir :: "workspace \<Rightarrow> string \<Rightarrow> exterror + string"
  exercise_Filepath :: "string \<Rightarrow> string"
  workspace_NewSolution :: "string \<Rightarrow> exterror + solution"
  os_Stat :: "string \<Rightarrow> exterror + fileInfo"
  workspace_NewDocument :: "string \<Rightarrow> string \<Rightarrow> exterror + document"
  os_Open :: "string \<Rightarrow> exterror + osFile"
  randomBoundary :: string
  api_NewClient :: "string \<Rightarrow> string \<Rightarrow> exterror + client"
  defaultHeader :: "client \<Rightarrow> string \<rightharpoonup> string"
  newRequestError :: "client \<Rightarrow> string \<Rightarrow> string \<Rightarrow> exterror option"
  client_Do :: "client \<Rightarrow> request \<Rightarrow> exterror + response"

definition GetString :: "(string \<Rightarrow> string) \<Rightarrow> string \<Rightarrow> string" where
  "GetString usrCfg key = usrCfg key"

subsection \<open>Results with a log of effects\<close>

text \<open>
  A computation gives an error or a value, and the events it caused. \<^verbatim>\<open>andThen\<close> runs the
  rest of the function after a step that did not fail; a step that failed ends the
  function with its error (\<^verbatim>\<open>if err != nil { return err }\<close>).
\<close>

type_synonym 'a outcome = "(error + 'a) \<times> event list"

definition ret :: "'a \<Rightarrow> 'a outcome" where
  "ret x = (Inr x, [])"

definition fail :: "error \<Rightarrow> 'a outcome" where
  "fail e = (Inl e, [])"

definition emit :: "event \<Rightarrow> unit outcome" where
  "emit ev = (Inr (), [ev])"

definition call :: "event \<Rightarrow> exterror + 'a \<Rightarrow> 'a outcome" where
  "call ev r = (case r of Inl e \<Rightarrow> (Inl (External e), [ev]) | Inr x \<Rightarrow> (Inr x, [ev]))"

definition andThen :: "'a outcome \<Rightarrow> ('a \<Rightarrow> 'b outcome) \<Rightarrow> 'b outcome" where
  "andThen m f =
     (case m of
        (Inl e, tr) \<Rightarrow> (Inl e, tr)
      | (Inr x, tr) \<Rightarrow> (case f x of (r, tr') \<Rightarrow> (r, tr @ tr')))"

subsection \<open>The messages written in the source\<close>

text \<open>
  The raw string literals of \<^verbatim>\<open>submit.go\<close> with their \<^verbatim>\<open>%s\<close> verbs filled in. A literal
  ends with the indentation of its closing back quote, which is tabs.
\<close>

definition tab :: string where
  "tab = [CHR 0x09]"

definition msgFileNotFound :: "string \<Rightarrow> string" where
  "msgFileNotFound arg =
     ''\<newline>\<newline>    The file you are trying to submit cannot be found.\<newline>\<newline>        ''
     @ arg @ ''\<newline>\<newline>'' @ tab @ tab"

definition msgDirectory :: "string \<Rightarrow> string \<Rightarrow> string" where
  "msgDirectory arg binaryName =
     ''\<newline>\<newline>    You are submitting a directory, which is not currently supported.\<newline>\<newline>        ''
     @ arg
     @ ''\<newline>\<newline>    Please change into the directory and provide the path to the file(s) you wish to submit\<newline>\<newline>        ''
     @ binaryName @ '' submit FILENAME\<newline>\<newline>'' @ tab @ tab @ tab"

definition msgDifferentSolutions :: string where
  "msgDifferentSolutions =
     ''\<newline>\<newline>    You are submitting files belonging to different solutions.\<newline>    Please submit the files for one solution at a time.\<newline>\<newline>''
     @ tab @ tab"

definition msgNotRequester :: "string \<Rightarrow> string \<Rightarrow> string \<Rightarrow> string" where
  "msgNotRequester binaryName exercise track =
     ''\<newline>\<newline>    The solution you are submitting is not connected to your account.\<newline>    Please re-download the exercise to make sure it has the data it needs.\<newline>\<newline>        ''
     @ binaryName @ '' download --exercise='' @ exercise @ '' --track='' @ track
     @ ''\<newline>\<newline>'' @ tab @ tab"

definition msgSkippingEmpty :: "string \<Rightarrow> string" where
  "msgSkippingEmpty file =
     ''\<newline>\<newline>    WARNING: Skipping empty file\<newline>             '' @ file
     @ ''\<newline>\<newline>'' @ tab @ tab"

definition msgNoFiles :: string where
  "msgNoFiles = ''\<newline>\<newline>    No files found to submit.\<newline>\<newline>'' @ tab @ tab"

definition msgSubmitted :: "string \<Rightarrow> string" where
  "msgSubmitted suffix =
     ''\<newline>\<newline>    Your solution has been submitted successfully.\<newline>    '' @ suffix
     @ ''\<newline>''"

definition suffixView :: string where
  "suffixView = ''View it at:\<newline>\<newline>    ''"

definition suffixAutoApprove :: string where
  "suffixAutoApprove =
     ''You can complete the exercise and unlock the next core exercise at:\<newline>''"

subsection \<open>The multipart writer and the request\<close>

text \<open>
  \<^verbatim>\<open>multipart.NewWriter\<close>, \<^verbatim>\<open>CreateFormFile\<close>, \<^verbatim>\<open>io.Copy\<close> into the part just created,
  \<^verbatim>\<open>Close\<close> and \<^verbatim>\<open>FormDataContentType\<close>. The writer writes into a \<^verbatim>\<open>bytes.Buffer\<close>, whose
  writes do not fail, so the only error here is that of reading the file.

  \<^verbatim>\<open>CreateFormFile\<close> does not declare the field name and the filename as they are given:
  it puts them into the Content-Disposition header of the part through \<^verbatim>\<open>escapeQuotes\<close>,
  the replacer of \<^verbatim>\<open>mime/multipart\<close> that writes a backslash before a backslash and before
  a double quote and writes a carriage return as \<^verbatim>\<open>%0D\<close> and a line feed as \<^verbatim>\<open>%0A\<close>. The
  \<^verbatim>\<open>fieldname\<close> and the \<^verbatim>\<open>filename\<close> of a part are what the header declares. The event of
  \<^verbatim>\<open>Close\<close> carries the buffer as it is when the writer has been closed.
\<close>

definition escapeChar :: "char \<Rightarrow> string" where
  "escapeChar c =
     (if c = CHR 0x5C then [CHR 0x5C, CHR 0x5C]
      else if c = CHR 0x22 then [CHR 0x5C, CHR 0x22]
      else if c = CHR 0x0D then ''%0D''
      else if c = CHR 0x0A then ''%0A''
      else [c])"

definition escapeQuotes :: "string \<Rightarrow> string" where
  "escapeQuotes s = concat (map escapeChar s)"

definition NewWriter :: "string \<Rightarrow> mpWriter" where
  "NewWriter b = \<lparr>wBoundary = b, wBody = \<lparr>bodyParts = [], bodyTerminated = False\<rparr>\<rparr>"

definition CreateFormFile :: "mpWriter \<Rightarrow> string \<Rightarrow> string \<Rightarrow> mpWriter outcome" where
  "CreateFormFile w field name =
     (Inr (w\<lparr>wBody := (wBody w)\<lparr>bodyParts :=
              bodyParts (wBody w) @
                [\<lparr>fieldname = escapeQuotes field, filename = escapeQuotes name,
                  content = []\<rparr>]\<rparr>\<rparr>),
      [EvCreateFormFile field name])"

fun appendToLast :: "part list \<Rightarrow> string \<Rightarrow> part list" where
  "appendToLast [] bs = []"
| "appendToLast [p] bs = [p\<lparr>content := content p @ bs\<rparr>]"
| "appendToLast (p # q # ps) bs = p # appendToLast (q # ps) bs"

definition io_Copy :: "mpWriter \<Rightarrow> osFile \<Rightarrow> mpWriter outcome" where
  "io_Copy w file =
     (case file of
        OsFile (Inl e) \<Rightarrow> (Inl (External e), [])
      | OsFile (Inr bs) \<Rightarrow>
          (Inr (w\<lparr>wBody := (wBody w)\<lparr>bodyParts := appendToLast (bodyParts (wBody w)) bs\<rparr>\<rparr>),
           [EvCopy bs]))"

definition Close :: "mpWriter \<Rightarrow> mpWriter outcome" where
  "Close w =
     (Inr (w\<lparr>wBody := (wBody w)\<lparr>bodyTerminated := True\<rparr>\<rparr>),
      [EvWriterClose ((wBody w)\<lparr>bodyTerminated := True\<rparr>)])"

definition FormDataContentType :: "mpWriter \<Rightarrow> string" where
  "FormDataContentType w = ''multipart/form-data; boundary='' @ wBoundary w"

text \<open>
  Modelled from the spec: \<^verbatim>\<open>api.Client.NewRequest\<close> is not part of \<^verbatim>\<open>submit.go\<close>; the spec
  treats it as a black box that builds a request for the method, the URL and the body it
  is given and authenticates it with the token. Whether it fails, and the header it
  derives from the client, come from the environment.
\<close>

definition client_NewRequest ::
  "env \<Rightarrow> client \<Rightarrow> string \<Rightarrow> string \<Rightarrow> buffer \<Rightarrow> request outcome" where
  "client_NewRequest env c method url body =
     (case newRequestError env c method url of
        Some e \<Rightarrow> (Inl (External e), [EvNewRequest method url body])
      | None \<Rightarrow>
          (Inr \<lparr>reqMethod = method, reqURL = url, reqHeader = defaultHeader env c,
                reqBody = body\<rparr>,
           [EvNewRequest method url body]))"

definition Header_Set :: "request \<Rightarrow> string \<Rightarrow> string \<Rightarrow> request" where
  "Header_Set req key v = req\<lparr>reqHeader := (reqHeader req)(key \<mapsto> v)\<rparr>"

definition ReadFrom :: "response \<Rightarrow> string outcome" where
  "ReadFrom resp = (case resp of Response r \<Rightarrow> call EvReadFrom r)"

subsection \<open>The four loops of runSubmit\<close>

text \<open>
  Lines 62 to 103: every argument is made absolute, must exist, must not be a directory
  (by \<^verbatim>\<open>os.Lstat\<close>, which does not follow a symbolic link in the last component), and is
  replaced in \<^verbatim>\<open>args\<close> by the path \<^verbatim>\<open>filepath.EvalSymlinks\<close> gives.
\<close>

definition lstatArg :: "env \<Rightarrow> string \<Rightarrow> fileInfo outcome" where
  "lstatArg env arg =
     (case os_Lstat env arg of
        Inl err \<Rightarrow>
          (if os_IsNotExist err then (Inl (ErrorString (msgFileNotFound arg)), [EvLstat arg])
           else (Inl (External err), [EvLstat arg]))
      | Inr info \<Rightarrow> (Inr info, [EvLstat arg]))"

fun resolveArgs :: "env \<Rightarrow> string list \<Rightarrow> string list outcome" where
  "resolveArgs env [] = ret []"
| "resolveArgs env (arg0 # rest) =
     andThen (call (EvAbs arg0) (filepath_Abs env arg0)) (\<lambda>arg.
     andThen (lstatArg env arg) (\<lambda>info.
       if IsDir info then fail (ErrorString (msgDirectory arg (BinaryName env)))
       else
         andThen (call (EvEvalSymlinks arg) (filepath_EvalSymlinks env arg)) (\<lambda>src.
         andThen (resolveArgs env rest) (\<lambda>rest'. ret (src # rest')))))"

text \<open>
  Lines 110 to 129: the solution directory of every argument is looked up; a directory
  that differs from the one kept in \<^verbatim>\<open>exerciseDir\<close>, when that is not the empty string,
  ends the function.
\<close>

definition solutionDirArg :: "env \<Rightarrow> workspace \<Rightarrow> string \<Rightarrow> string outcome" where
  "solutionDirArg env ws arg =
     (case ws_SolutionDir env ws arg of
        Inl err \<Rightarrow>
          (if workspace_IsMissingMetadata err then (Inl ErrMissingMetadata, [EvSolutionDir arg])
           else (Inl (External err), [EvSolutionDir arg]))
      | Inr dir \<Rightarrow> (Inr dir, [EvSolutionDir arg]))"

fun findExerciseDir :: "env \<Rightarrow> workspace \<Rightarrow> string \<Rightarrow> string list \<Rightarrow> string outcome" where
  "findExerciseDir env ws exerciseDir [] = ret exerciseDir"
| "findExerciseDir env ws exerciseDir (arg # rest) =
     andThen (solutionDirArg env ws arg) (\<lambda>dir.
       if exerciseDir \<noteq> [] \<and> dir \<noteq> exerciseDir
       then fail (ErrorString msgDifferentSolutions)
       else findExerciseDir env ws dir rest)"

text \<open>
  Lines 151 to 174: a file of size zero is reported on \<^verbatim>\<open>Err\<close> and skipped; any other file
  becomes a document, appended to \<^verbatim>\<open>exercise.Documents\<close>.
\<close>

fun collectDocuments ::
  "env \<Rightarrow> string \<Rightarrow> document list \<Rightarrow> string list \<Rightarrow> document list outcome" where
  "collectDocuments env root documents [] = ret documents"
| "collectDocuments env root documents (file # rest) =
     andThen (call (EvStat file) (os_Stat env file)) (\<lambda>info.
       if Size info = 0
       then andThen (emit (EvErr (msgSkippingEmpty file))) (\<lambda>_.
              collectDocuments env root documents rest)
       else
         andThen (call (EvNewDocument root file) (workspace_NewDocument env root file)) (\<lambda>doc.
           collectDocuments env root (documents @ [doc]) rest))"

text \<open>
  Lines 188 to 203: every document is opened, gets a part with the field name
  \<^verbatim>\<open>files[]\<close> and its \<^verbatim>\<open>Path()\<close> as the filename given to \<^verbatim>\<open>CreateFormFile\<close>, and is
  copied into that part.
\<close>

fun writeParts :: "env \<Rightarrow> mpWriter \<Rightarrow> document list \<Rightarrow> mpWriter outcome" where
  "writeParts env writer [] = ret writer"
| "writeParts env writer (doc # rest) =
     andThen (call (EvOpen (Filepath doc)) (os_Open env (Filepath doc))) (\<lambda>file.
     andThen (CreateFormFile writer ''files[]'' (Path doc)) (\<lambda>writer1.
     andThen (io_Copy writer1 file) (\<lambda>writer2.
       writeParts env writer2 rest)))"

subsection \<open>runSubmit\<close>

text \<open>
  The body of \<^verbatim>\<open>runSubmit\<close> is cut into its consecutive blocks. Lines 62 to 149: the
  arguments are resolved, the workspace is opened, the solution directory is found, the
  solution is loaded and must belong to the configured account. The block gives the
  solution, its directory and the resolved arguments.
\<close>

definition locateSolution ::
  "env \<Rightarrow> string list \<Rightarrow> (solution \<times> string \<times> string list) outcome" where
  "locateSolution env args0 =
     (let usrCfg = UserViperConfig env in
      andThen (resolveArgs env args0) (\<lambda>args.
      andThen (call (EvWorkspaceNew (GetString usrCfg ''workspace''))
                 (workspace_New env (GetString usrCfg ''workspace''))) (\<lambda>ws.
      andThen (findExerciseDir env ws [] args) (\<lambda>exerciseDir.
      andThen (call (EvNewSolution exerciseDir)
                 (workspace_NewSolution env exerciseDir)) (\<lambda>solution.
        if \<not> IsRequester solution
        then fail (ErrorString
               (msgNotRequester (BinaryName env) (Exercise solution) (Track solution)))
        else ret (solution, exerciseDir, args))))))"

text \<open>Lines 151 to 183: the documents are collected; there must be one at least.\<close>

definition collect :: "env \<Rightarrow> string \<Rightarrow> string list \<Rightarrow> document list outcome" where
  "collect env exerciseDir args =
     andThen (collectDocuments env (exercise_Filepath env exerciseDir) [] args) (\<lambda>documents.
       if length documents = 0 then fail (ErrorString msgNoFiles)
       else ret documents)"

text \<open>Lines 185 to 208: the body is written and the writer is closed.\<close>

definition package :: "env \<Rightarrow> document list \<Rightarrow> mpWriter outcome" where
  "package env documents =
     andThen (emit EvNewWriter) (\<lambda>_.
     andThen (writeParts env (NewWriter (randomBoundary env)) documents) (\<lambda>writer.
       Close writer))"

text \<open>
  Lines 210 to 244: the request is built and sent, the response is read, and the two
  closing messages are written, the first to \<^verbatim>\<open>Err\<close> and the second to \<^verbatim>\<open>Out\<close>.
\<close>

definition transmit :: "env \<Rightarrow> solution \<Rightarrow> mpWriter \<Rightarrow> unit outcome" where
  "transmit env solution writer =
     (let usrCfg = UserViperConfig env in
      andThen (call (EvNewClient (GetString usrCfg ''token'') (GetString usrCfg ''apibaseurl''))
                 (api_NewClient env (GetString usrCfg ''token'')
                    (GetString usrCfg ''apibaseurl''))) (\<lambda>client.
        let url = GetString usrCfg ''apibaseurl'' @ ''/solutions/'' @ ID solution in
        andThen (client_NewRequest env client ''PATCH'' url (wBody writer)) (\<lambda>req0.
          let req = Header_Set req0 ''Content-Type'' (FormDataContentType writer) in
          andThen (emit (EvHeaderSet ''Content-Type'' (FormDataContentType writer))) (\<lambda>_.
          andThen (call (EvDo req) (client_Do env client req)) (\<lambda>resp.
          andThen (ReadFrom resp) (\<lambda>_.
            let suffix = (if AutoApprove solution then suffixAutoApprove else suffixView) in
            andThen (emit (EvErr (msgSubmitted suffix))) (\<lambda>_.
              emit (EvOut (''    '' @ URL solution @ ''\<newline>\<newline>'')))))))))"

text \<open>Lines 51 to 245, with the two checks of the configuration of lines 54 to 60.\<close>

definition runSubmit :: "env \<Rightarrow> string list \<Rightarrow> unit outcome" where
  "runSubmit env args0 =
     (let usrCfg = UserViperConfig env in
      if GetString usrCfg ''token'' = []
      then fail (ErrWelcomePleaseConfigure
                   (config_SettingsURL env (GetString usrCfg ''apibaseurl'')) (BinaryName env))
      else if GetString usrCfg ''workspace'' = []
      then fail (ErrRerunConfigure (BinaryName env))
      else
        andThen (locateSolution env args0) (\<lambda>(solution, exerciseDir, args).
        andThen (collect env exerciseDir args) (\<lambda>documents.
        andThen (package env documents) (\<lambda>writer.
          transmit env solution writer))))"

subsection \<open>What an event is about\<close>

datatype kind = ArgPath | Metadata | Collection | Body | Network | Output

fun kindOf :: "event \<Rightarrow> kind" where
  "kindOf (EvAbs _) = ArgPath"
| "kindOf (EvLstat _) = ArgPath"
| "kindOf (EvEvalSymlinks _) = ArgPath"
| "kindOf (EvWorkspaceNew _) = Metadata"
| "kindOf (EvSolutionDir _) = Metadata"
| "kindOf (EvNewSolution _) = Metadata"
| "kindOf (EvStat _) = Collection"
| "kindOf (EvNewDocument _ _) = Collection"
| "kindOf (EvErr _) = Output"
| "kindOf (EvOut _) = Output"
| "kindOf EvNewWriter = Body"
| "kindOf (EvOpen _) = Body"
| "kindOf (EvCreateFormFile _ _) = Body"
| "kindOf (EvCopy _) = Body"
| "kindOf (EvWriterClose _) = Body"
| "kindOf (EvNewClient _ _) = Network"
| "kindOf (EvNewRequest _ _ _) = Network"
| "kindOf (EvHeaderSet _ _) = Network"
| "kindOf (EvDo _) = Network"
| "kindOf EvReadFrom = Network"

definition kinds :: "event list \<Rightarrow> kind set" where
  "kinds tr = kindOf ` set tr"

text \<open>What has been written to \<^verbatim>\<open>Err\<close> and to \<^verbatim>\<open>Out\<close>, in order.\<close>

fun errWrites :: "event list \<Rightarrow> string list" where
  "errWrites [] = []"
| "errWrites (EvErr s # tr) = s # errWrites tr"
| "errWrites (_ # tr) = errWrites tr"

fun outWrites :: "event list \<Rightarrow> string list" where
  "outWrites [] = []"
| "outWrites (EvOut s # tr) = s # outWrites tr"
| "outWrites (_ # tr) = outWrites tr"

subsection \<open>What the arguments and the files are, read off the environment\<close>

text \<open>
  The path an argument is replaced by when it passes lines 62 to 103, the directory the
  workspace gives for it, whether a resolved file has size zero, the bytes of a file, and
  the part a document and a resolved file are written as.
\<close>

definition resolveArg :: "env \<Rightarrow> string \<Rightarrow> string option" where
  "resolveArg env arg0 =
     (case filepath_Abs env arg0 of
        Inl _ \<Rightarrow> None
      | Inr arg \<Rightarrow>
          (case os_Lstat env arg of
             Inl _ \<Rightarrow> None
           | Inr info \<Rightarrow>
               if IsDir info then None
               else (case filepath_EvalSymlinks env arg of
                       Inl _ \<Rightarrow> None
                     | Inr src \<Rightarrow> Some src)))"

definition argSolutionDir :: "env \<Rightarrow> workspace \<Rightarrow> string \<Rightarrow> string option" where
  "argSolutionDir env ws arg0 =
     (case resolveArg env arg0 of
        None \<Rightarrow> None
      | Some src \<Rightarrow>
          (case ws_SolutionDir env ws src of Inl _ \<Rightarrow> None | Inr dir \<Rightarrow> Some dir))"

definition isEmptyFile :: "env \<Rightarrow> string \<Rightarrow> bool" where
  "isEmptyFile env file =
     (case os_Stat env file of Inl _ \<Rightarrow> False | Inr info \<Rightarrow> Size info = 0)"

definition fileBytes :: "env \<Rightarrow> string \<Rightarrow> string option" where
  "fileBytes env file =
     (case os_Open env file of
        Inl _ \<Rightarrow> None
      | Inr (OsFile r) \<Rightarrow> (case r of Inl _ \<Rightarrow> None | Inr bs \<Rightarrow> Some bs))"

definition docPart :: "env \<Rightarrow> document \<Rightarrow> part option" where
  "docPart env doc =
     (case fileBytes env (Filepath doc) of
        None \<Rightarrow> None
      | Some bs \<Rightarrow>
          Some \<lparr>fieldname = ''files[]'', filename = escapeQuotes (Path doc), content = bs\<rparr>)"

definition filePart :: "env \<Rightarrow> string \<Rightarrow> string \<Rightarrow> part option" where
  "filePart env root file =
     (case workspace_NewDocument env root file of
        Inl _ \<Rightarrow> None
      | Inr doc \<Rightarrow> docPart env doc)"

subsection \<open>The effective configuration\<close>

type_synonym settings = "string \<rightharpoonup> string"

text \<open>
  Modelled from the spec: the built-in defaults. The config package is not among the
  sources; the spec gives one default, that of the API base URL, and the test of the
  configure command expects the same value.
\<close>

definition defaultSettings :: settings where
  "defaultSettings = [''apibaseurl'' \<mapsto> ''https://api.exercism.com/v1'']"

text \<open>
  Modelled from the spec: the merge of the three sources of a setting, which the configure
  command and the config package do and which are not among the sources. The spec gives
  the sources in strict precedence (the flag, then the persisted value, then the
  built-in default) and the empty string for a key that none supplies.
\<close>

definition resolveSetting :: "settings \<Rightarrow> settings \<Rightarrow> string \<Rightarrow> string" where
  "resolveSetting flags persisted key =
     (case flags key of
        Some v \<Rightarrow> v
      | None \<Rightarrow>
          (case persisted key of
             Some v \<Rightarrow> v
           | None \<Rightarrow> (case defaultSettings key of Some v \<Rightarrow> v | None \<Rightarrow> [])))"

record EffectiveConfig =
  token :: string
  workspaceRoot :: string
  apiBaseURL :: string

text \<open>
  Modelled from the spec: the effective configuration of one invocation, the three keys
  resolved from the flags and the persisted settings.
\<close>

definition resolveConfig :: "settings \<Rightarrow> settings \<Rightarrow> EffectiveConfig" where
  "resolveConfig flags persisted =
     \<lparr>token = resolveSetting flags persisted ''token'',
      workspaceRoot = resolveSetting flags persisted ''workspace'',
      apiBaseURL = resolveSetting flags persisted ''apibaseurl''\<rparr>"

subsection \<open>A concrete workspace\<close>

text \<open>
  One environment to run \<^verbatim>\<open>runSubmit\<close> in: the workspace \<^verbatim>\<open>/ws\<close> with the solutions
  \<^verbatim>\<open>/ws/go/hello\<close> and \<^verbatim>\<open>/ws/rust/bob\<close>, the current directory \<^verbatim>\<open>/ws/go/hello\<close>,
  which holds the files \<^verbatim>\<open>hello.go\<close> and \<^verbatim>\<open>hello_test.go\<close>, a file whose name is
  \<^verbatim>\<open>a\<close>, a line feed and \<^verbatim>\<open>b.go\<close>, the empty file \<^verbatim>\<open>empty.go\<close>, the directory \<^verbatim>\<open>sub\<close>
  and the symbolic links \<^verbatim>\<open>link.go\<close> (to \<^verbatim>\<open>hello.go\<close>) and \<^verbatim>\<open>sublink\<close> (to \<^verbatim>\<open>sub\<close>).
  \<^verbatim>\<open>demoInfo\<close> is what is at a path itself, \<^verbatim>\<open>demoTarget\<close> where a link points:
  \<^verbatim>\<open>Lstat\<close> describes the link, \<^verbatim>\<open>Stat\<close> and \<^verbatim>\<open>EvalSymlinks\<close> follow it. The size of a
  file is the number of its bytes. \<^verbatim>\<open>demoAbs\<close> joins a relative path to the current
  directory; of the cleaning \<^verbatim>\<open>filepath.Abs\<close> does it knows the empty path and a leading
  \<^verbatim>\<open>./\<close>, and the paths used below have nothing else to clean.
\<close>

definition demoInfo :: "string \<Rightarrow> exterror + fileInfo" where
  "demoInfo p =
     (if p = ''/ws/go/hello/hello.go'' then Inr \<lparr>IsDir = False, Size = 12\<rparr>
      else if p = ''/ws/go/hello/hello_test.go'' then Inr \<lparr>IsDir = False, Size = 17\<rparr>
      else if p = ''/ws/go/hello/a\<newline>b.go'' then Inr \<lparr>IsDir = False, Size = 1\<rparr>
      else if p = ''/ws/go/hello/empty.go'' then Inr \<lparr>IsDir = False, Size = 0\<rparr>
      else if p = ''/ws/go/hello/sub'' then Inr \<lparr>IsDir = True, Size = 4096\<rparr>
      else if p = ''/ws/rust/bob/lib.rs'' then Inr \<lparr>IsDir = False, Size = 8\<rparr>
      else Inl NotExist)"

definition demoTarget :: "string \<Rightarrow> string option" where
  "demoTarget p =
     (if p = ''/ws/go/hello/link.go'' then Some ''/ws/go/hello/hello.go''
      else if p = ''/ws/go/hello/sublink'' then Some ''/ws/go/hello/sub''
      else None)"

definition demoLstat :: "string \<Rightarrow> exterror + fileInfo" where
  "demoLstat p =
     (case demoTarget p of
        Some t \<Rightarrow> Inr \<lparr>IsDir = False, Size = int (length t)\<rparr>
      | None \<Rightarrow> demoInfo p)"

definition demoEvalSymlinks :: "string \<Rightarrow> exterror + string" where
  "demoEvalSymlinks p =
     (case demoTarget p of
        Some t \<Rightarrow> Inr t
      | None \<Rightarrow> (case demoInfo p of Inl e \<Rightarrow> Inl e | Inr _ \<Rightarrow> Inr p))"

definition demoStat :: "string \<Rightarrow> exterror + fileInfo" where
  "demoStat p = (case demoTarget p of Some t \<Rightarrow> demoInfo t | None \<Rightarrow> demoInfo p)"

definition demoAbs :: "string \<Rightarrow> exterror + string" where
  "demoAbs p =
     Inr (if p = [] then ''/ws/go/hello''
          else if take 1 p = ''/'' then p
          else if take 2 p = ''./'' then ''/ws/go/hello/'' @ drop 2 p
          else ''/ws/go/hello/'' @ p)"

definition demoSolutionDir :: "workspace \<Rightarrow> string \<Rightarrow> exterror + string" where
  "demoSolutionDir ws p =
     (if take 13 p = ''/ws/go/hello/'' then Inr ''/ws/go/hello''
      else if take 13 p = ''/ws/rust/bob/'' then Inr ''/ws/rust/bob''
      else Inl MissingMetadata)"

definition demoSolution :: solution where
  "demoSolution =
     \<lparr>ID = ''s1'', Exercise = ''hello'', Track = ''go'', IsRequester = True,
      AutoApprove = False, URL = ''https://exercism.io/my/solutions/s1''\<rparr>"

definition demoNewSolution :: "string \<Rightarrow> exterror + solution" where
  "demoNewSolution dir =
     (if dir = ''/ws/go/hello'' then Inr demoSolution
      else if dir = ''/ws/rust/bob''
      then Inr \<lparr>ID = ''s2'', Exercise = ''bob'', Track = ''rust'', IsRequester = False,
                AutoApprove = True, URL = ''https://exercism.io/my/solutions/s2''\<rparr>
      else Inl MissingMetadata)"

definition demoNewDocument :: "string \<Rightarrow> string \<Rightarrow> exterror + document" where
  "demoNewDocument root p =
     (if take (length root + 1) p = root @ ''/''
      then Inr \<lparr>Path = drop (length root + 1) p, Filepath = p\<rparr>
      else Inl (OtherError ''not below the exercise''))"

definition demoOpen :: "string \<Rightarrow> exterror + osFile" where
  "demoOpen p =
     (if p = ''/ws/go/hello/hello.go'' then Inr (OsFile (Inr ''package main''))
      else if p = ''/ws/go/hello/hello_test.go'' then Inr (OsFile (Inr ''package main_test''))
      else if p = ''/ws/go/hello/a\<newline>b.go'' then Inr (OsFile (Inr ''x''))
      else if p = ''/ws/go/hello/empty.go'' then Inr (OsFile (Inr []))
      else if p = ''/ws/go/hello/sub'' then Inr (OsFile (Inl (OtherError ''is a directory'')))
      else if p = ''/ws/rust/bob/lib.rs'' then Inr (OsFile (Inr ''fn f(){}''))
      else Inl NotExist)"

definition demoConfig :: "string \<Rightarrow> string" where
  "demoConfig key =
     (if key = ''token'' then ''secret''
      else if key = ''workspace'' then ''/ws''
      else if key = ''apibaseurl'' then ''https://api.exercism.com/v1''
      else [])"

definition demoHeader :: "client \<Rightarrow> string \<rightharpoonup> string" where
  "demoHeader c = (case c of Client t u \<Rightarrow> [''Authorization'' \<mapsto> ''Bearer '' @ t])"

definition demoEnv :: env where
  "demoEnv =
     \<lparr>UserViperConfig = demoConfig,
      BinaryName = ''exercism'',
      config_SettingsURL = (\<lambda>u. ''https://exercism.io/my/settings''),
      filepath_Abs = demoAbs,
      os_Lstat = demoLstat,
      filepath_EvalSymlinks = demoEvalSymlinks,
      workspace_New = (\<lambda>dir. Inr (Workspace dir)),
      ws_SolutionDir = demoSolutionDir,
      exercise_Filepath = (\<lambda>dir. dir),
      workspace_NewSolution = demoNewSolution,
      os_Stat = demoStat,
      workspace_NewDocument = demoNewDocument,
      os_Open = demoOpen,
      randomBoundary = ''b0undary'',
      api_NewClient = (\<lambda>t u. Inr (Client t u)),
      defaultHeader = demoHeader,
      newRequestError = (\<lambda>c m u. None),
      client_Do = (\<lambda>c r. Inr (Response (Inr ''{}'')))\<rparr>"

text \<open>
  The run on the arguments \<^verbatim>\<open>hello.go empty.go link.go\<close>: the resolved arguments, the
  document and the part of \<^verbatim>\<open>hello.go\<close>, the writer after \<^verbatim>\<open>Close\<close>, the request that
  is sent, and the events of the blocks.
\<close>

definition demoArgs :: "string list" where
  "demoArgs = [''hello.go'', ''empty.go'', ''link.go'']"

definition demoFiles :: "string list" where
  "demoFiles = [''/ws/go/hello/hello.go'', ''/ws/go/hello/empty.go'', ''/ws/go/hello/hello.go'']"

definition demoDoc :: document where
  "demoDoc = \<lparr>Path = ''hello.go'', Filepath = ''/ws/go/hello/hello.go''\<rparr>"

definition demoPart :: part where
  "demoPart = \<lparr>fieldname = ''files[]'', filename = ''hello.go'', content = ''package main''\<rparr>"

definition demoWriter :: mpWriter where
  "demoWriter =
     \<lparr>wBoundary = ''b0undary'',
      wBody = \<lparr>bodyParts = [demoPart, demoPart], bodyTerminated = True\<rparr>\<rparr>"

definition demoRequest :: request where
  "demoRequest =
     \<lparr>reqMethod = ''PATCH'',
      reqURL = ''https://api.exercism.com/v1/solutions/s1'',
      reqHeader = (demoHeader (Client ''secret'' ''https://api.exercism.com/v1''))
                    (''Content-Type'' \<mapsto> ''multipart/form-data; boundary=b0undary''),
      reqBody = \<lparr>bodyParts = [demoPart, demoPart], bodyTerminated = True\<rparr>\<rparr>"

definition demoLocateTrace :: "event list" where
  "demoLocateTrace =
     [EvAbs ''hello.go'', EvLstat ''/ws/go/hello/hello.go'',
      EvEvalSymlinks ''/ws/go/hello/hello.go'',
      EvAbs ''empty.go'', EvLstat ''/ws/go/hello/empty.go'',
      EvEvalSymlinks ''/ws/go/hello/empty.go'',
      EvAbs ''link.go'', EvLstat ''/ws/go/hello/link.go'',
      EvEvalSymlinks ''/ws/go/hello/link.go'',
      EvWorkspaceNew ''/ws'',
      EvSolutionDir ''/ws/go/hello/hello.go'', EvSolutionDir ''/ws/go/hello/empty.go'',
      EvSolutionDir ''/ws/go/hello/hello.go'',
      EvNewSolution ''/ws/go/hello'']"

definition demoCollectTrace :: "event list" where
  "demoCollectTrace =
     [EvStat ''/ws/go/hello/hello.go'',
      EvNewDocument ''/ws/go/hello'' ''/ws/go/hello/hello.go'',
      EvStat ''/ws/go/hello/empty.go'',
      EvErr (msgSkippingEmpty ''/ws/go/hello/empty.go''),
      EvStat ''/ws/go/hello/hello.go'',
      EvNewDocument ''/ws/go/hello'' ''/ws/go/hello/hello.go'']"

definition demoPackageTrace :: "event list" where
  "demoPackageTrace =
     [EvNewWriter,
      EvOpen ''/ws/go/hello/hello.go'', EvCreateFormFile ''files[]'' ''hello.go'',
      EvCopy ''package main'',
      EvOpen ''/ws/go/hello/hello.go'', EvCreateFormFile ''files[]'' ''hello.go'',
      EvCopy ''package main'',
      EvWriterClose \<lparr>bodyParts = [demoPart, demoPart], bodyTerminated = True\<rparr>]"

definition demoTransmitTrace :: "event list" where
  "demoTransmitTrace =
     [EvNewClient ''secret'' ''https://api.exercism.com/v1'',
      EvNewRequest ''PATCH'' ''https://api.exercism.com/v1/solutions/s1''
        \<lparr>bodyParts = [demoPart, demoPart], bodyTerminated = True\<rparr>,
      EvHeaderSet ''Content-Type'' ''multipart/form-data; boundary=b0undary'',
      EvDo demoRequest,
      EvReadFrom,
      EvErr (msgSubmitted suffixView),
      EvOut (''    https://exercism.io/my/solutions/s1'' @ ''\<newline>\<newline>'')]"

text \<open>
  Two more runs: on \<^verbatim>\<open>hello_test.go empty.go hello.go\<close>, whose two parts differ, and on
  the file with the line feed in its name.
\<close>

definition demoTestPart :: part where
  "demoTestPart =
     \<lparr>fieldname = ''files[]'', filename = ''hello_test.go'', content = ''package main_test''\<rparr>"

definition demoOrderArgs :: "string list" where
  "demoOrderArgs = [''hello_test.go'', ''empty.go'', ''hello.go'']"

definition demoOrderRequest :: request where
  "demoOrderRequest =
     \<lparr>reqMethod = ''PATCH'',
      reqURL = ''https://api.exercism.com/v1/solutions/s1'',
      reqHeader = (demoHeader (Client ''secret'' ''https://api.exercism.com/v1''))
                    (''Content-Type'' \<mapsto> ''multipart/form-data; boundary=b0undary''),
      reqBody = \<lparr>bodyParts = [demoTestPart, demoPart], bodyTerminated = True\<rparr>\<rparr>"

definition demoLineFeedDoc :: document where
  "demoLineFeedDoc = \<lparr>Path = ''a\<newline>b.go'', Filepath = ''/ws/go/hello/a\<newline>b.go''\<rparr>"

definition demoLineFeedPart :: part where
  "demoLineFeedPart = \<lparr>fieldname = ''files[]'', filename = ''a%0Ab.go'', content = ''x''\<rparr>"

section \<open>Auxiliary facts\<close>

lemma andThen_Inl [simp]: "andThen (Inl e, tr) f = (Inl e, tr)"
  by (simp add: andThen_def)

lemma andThen_Inr [simp]: "andThen (Inr x, tr) f = apsnd ((@) tr) (f x)"
  by (simp add: andThen_def split: prod.split)

lemma andThen_ret [simp]: "andThen (ret x) f = f x"
  by (cases "f x") (simp add: ret_def)

lemma andThen_fail [simp]: "andThen (fail e) f = fail e"
  by (simp add: fail_def)

lemma andThen_emit [simp]: "andThen (emit ev) f = apsnd ((#) ev) (f ())"
  by (cases "f ()") (simp add: emit_def)

lemma call_Inl [simp]: "call ev (Inl e) = (Inl (External e), [ev])"
  by (simp add: call_def)

lemma call_Inr [simp]: "call ev (Inr x) = (Inr x, [ev])"
  by (simp add: call_def)

lemma fst_ret [simp]: "fst (ret x) = Inr x" and snd_ret [simp]: "snd (ret x) = []"
  by (simp_all add: ret_def)

lemma fst_fail [simp]: "fst (fail e) = Inl e" and snd_fail [simp]: "snd (fail e) = []"
  by (simp_all add: fail_def)

lemma fst_emit [simp]: "fst (emit ev) = Inr ()" and snd_emit [simp]: "snd (emit ev) = [ev]"
  by (simp_all add: emit_def)

lemma snd_andThen:
  "snd (andThen m f) = (case fst m of Inl e \<Rightarrow> snd m | Inr x \<Rightarrow> snd m @ snd (f x))"
  by (cases m; cases "fst m") (auto)

lemma fst_andThen:
  "fst (andThen m f) = (case fst m of Inl e \<Rightarrow> Inl e | Inr x \<Rightarrow> fst (f x))"
  by (cases m; cases "fst m") (auto)

lemma kinds_Nil [simp]: "kinds [] = {}"
  by (simp add: kinds_def)

lemma kinds_Cons [simp]: "kinds (ev # tr) = insert (kindOf ev) (kinds tr)"
  by (simp add: kinds_def)

lemma kinds_append [simp]: "kinds (tr @ tr') = kinds tr \<union> kinds tr'"
  by (auto simp: kinds_def)

lemma kinds_andThen:
  assumes "kinds (snd m) \<subseteq> K" and "\<And>x. kinds (snd (f x)) \<subseteq> K"
  shows "kinds (snd (andThen m f)) \<subseteq> K"
proof (cases "fst m")
  case (Inl e)
  then show ?thesis using assms(1) by (simp add: snd_andThen)
next
  case (Inr x)
  then show ?thesis using assms(1) assms(2)[of x] by (simp add: snd_andThen)
qed

lemma kinds_call: "kindOf ev \<in> K \<Longrightarrow> kinds (snd (call ev r)) \<subseteq> K"
  by (cases r) auto

lemma kinds_emit: "kindOf ev \<in> K \<Longrightarrow> kinds (snd (emit ev)) \<subseteq> K"
  by simp

lemma kinds_if:
  "(c \<Longrightarrow> kinds (snd a) \<subseteq> K) \<Longrightarrow> (\<not> c \<Longrightarrow> kinds (snd b) \<subseteq> K)
   \<Longrightarrow> kinds (snd (if c then a else b)) \<subseteq> K"
  by simp

lemma kinds_lstatArg: "kinds (snd (lstatArg env a)) \<subseteq> {ArgPath}"
  by (auto simp: lstatArg_def split: sum.splits)

lemma kinds_resolveArgs: "kinds (snd (resolveArgs env args)) \<subseteq> {ArgPath}"
proof (induction args)
  case Nil
  show ?case by simp
next
  case (Cons a args)
  show ?case
    unfolding resolveArgs.simps
    by (intro kinds_andThen kinds_call kinds_lstatArg kinds_if Cons; simp)
qed

lemma kinds_solutionDirArg: "kinds (snd (solutionDirArg env ws a)) \<subseteq> {Metadata}"
  by (auto simp: solutionDirArg_def split: sum.splits)

lemma kinds_findExerciseDir: "kinds (snd (findExerciseDir env ws d args)) \<subseteq> {Metadata}"
proof (induction args arbitrary: d)
  case Nil
  show ?case by simp
next
  case (Cons a args)
  show ?case
    unfolding findExerciseDir.simps
    by (intro kinds_andThen kinds_solutionDirArg kinds_if Cons; simp)
qed

lemma kinds_collectDocuments:
  "kinds (snd (collectDocuments env root docs files)) \<subseteq> {Collection, Output}"
proof (induction files arbitrary: docs)
  case Nil
  show ?case by simp
next
  case (Cons a files)
  show ?case
    unfolding collectDocuments.simps
    by (intro kinds_andThen kinds_call kinds_emit kinds_if Cons; simp)
qed

lemma kinds_writeParts: "kinds (snd (writeParts env w docs)) \<subseteq> {Body}"
proof (induction docs arbitrary: w)
  case Nil
  show ?case by simp
next
  case (Cons a docs)
  show ?case
    unfolding writeParts.simps
    by (intro kinds_andThen kinds_call Cons)
       (auto simp: CreateFormFile_def io_Copy_def split: osFile.splits sum.splits)
qed

lemma apsnd_append [simp]: "apsnd ((@) a) (apsnd ((@) b) X) = apsnd ((@) (a @ b)) X"
  by (cases X) simp

lemma apsnd_append_Cons [simp]: "apsnd ((@) a) (apsnd ((#) ev) X) = apsnd ((@) (a @ [ev])) X"
  by (cases X) simp

lemma andThen_event_inv:
  assumes "ev \<in> set (snd (andThen m f))" and "ev \<notin> set (snd m)"
  shows "\<exists>x t. m = (Inr x, t) \<and> ev \<in> set (snd (f x))"
proof (cases m)
  case (Pair r t)
  with assms show ?thesis by (cases r) auto
qed

lemma andThen_kind_inv:
  assumes "k \<in> kinds (snd (andThen m f))" and "k \<notin> kinds (snd m)"
  shows "\<exists>x t. m = (Inr x, t) \<and> k \<in> kinds (snd (f x))"
proof (cases m)
  case (Pair r t)
  with assms show ?thesis by (cases r) auto
qed


lemma errWrites_append [simp]: "errWrites (tr @ tr') = errWrites tr @ errWrites tr'"
  by (induction tr rule: errWrites.induct) auto

lemma outWrites_append [simp]: "outWrites (tr @ tr') = outWrites tr @ outWrites tr'"
  by (induction tr rule: outWrites.induct) auto

subsection \<open>resolveArgs\<close>

lemma resolveArgs_Cons_ok:
  assumes "resolveArg env a = Some src"
  shows "\<exists>p. filepath_Abs env a = Inr p \<and>
           resolveArgs env (a # rest) =
             (map_sum id ((#) src) (fst (resolveArgs env rest)),
              EvAbs a # EvLstat p # EvEvalSymlinks p # snd (resolveArgs env rest))"
  using assms
  by (cases "resolveArgs env rest"; cases "fst (resolveArgs env rest)")
     (auto simp: resolveArg_def lstatArg_def ret_def split: sum.splits if_splits)

lemma resolveArgs_Cons_bad:
  assumes "resolveArg env a = None"
  shows "\<exists>e. fst (resolveArgs env (a # rest)) = Inl e"
  using assms
  by (auto simp: resolveArg_def lstatArg_def fail_def split: sum.splits if_splits)

lemma resolveArgs_Inr:
  "fst (resolveArgs env args) = Inr rs \<longleftrightarrow> map (resolveArg env) args = map Some rs"
proof (induction args arbitrary: rs)
  case Nil
  show ?case by auto
next
  case (Cons a args)
  show ?case
  proof (cases "resolveArg env a")
    case None
    with resolveArgs_Cons_bad[OF None, of args] show ?thesis by (cases rs) auto
  next
    case (Some src)
    from resolveArgs_Cons_ok[OF Some, of args]
    have eq: "fst (resolveArgs env (a # args)) = map_sum id ((#) src) (fst (resolveArgs env args))"
      by auto
    show ?thesis
    proof (cases "fst (resolveArgs env args)")
      case (Inl e)
      with Cons[of "tl rs"] eq Some show ?thesis by (cases rs) auto
    next
      case (Inr rs')
      with Cons[of rs'] Cons[of "tl rs"] eq Some show ?thesis by (cases rs) auto
    qed
  qed
qed


subsection \<open>findExerciseDir\<close>

lemma findExerciseDir_Cons_ok:
  assumes "ws_SolutionDir env ws a = Inr d"
  shows "findExerciseDir env ws acc (a # rest) =
           (if acc \<noteq> [] \<and> d \<noteq> acc
            then (Inl (ErrorString msgDifferentSolutions), [EvSolutionDir a])
            else apsnd ((#) (EvSolutionDir a)) (findExerciseDir env ws d rest))"
  using assms by (cases "findExerciseDir env ws d rest") (auto simp: solutionDirArg_def fail_def)

lemma findExerciseDir_differ:
  assumes "\<forall>a\<in>set rs. \<exists>d. ws_SolutionDir env ws a = Inr d \<and> d \<noteq> []"
    and "acc \<noteq> []"
    and "\<exists>a\<in>set rs. ws_SolutionDir env ws a \<noteq> Inr acc"
  shows "fst (findExerciseDir env ws acc rs) = Inl (ErrorString msgDifferentSolutions)"
  using assms
proof (induction rs arbitrary: acc)
  case Nil
  then show ?case by simp
next
  case (Cons a rs)
  from Cons.prems(1) obtain d where d: "ws_SolutionDir env ws a = Inr d" "d \<noteq> []"
    by auto
  show ?case
  proof (cases "d = acc")
    case False
    with d Cons.prems(2) show ?thesis
      by (simp del: findExerciseDir.simps add: findExerciseDir_Cons_ok)
  next
    case True
    with d Cons.prems(3) have "\<exists>b\<in>set rs. ws_SolutionDir env ws b \<noteq> Inr d" by auto
    with Cons.IH[of d] Cons.prems(1) d have
      "fst (findExerciseDir env ws d rs) = Inl (ErrorString msgDifferentSolutions)" by simp
    with d True show ?thesis
      by (simp del: findExerciseDir.simps add: findExerciseDir_Cons_ok)
  qed
qed

lemma findExerciseDir_two:
  assumes all: "\<forall>a\<in>set rs. \<exists>d. ws_SolutionDir env ws a = Inr d \<and> d \<noteq> []"
    and two: "r1 \<in> set rs" "r2 \<in> set rs" "ws_SolutionDir env ws r1 \<noteq> ws_SolutionDir env ws r2"
  shows "fst (findExerciseDir env ws [] rs) = Inl (ErrorString msgDifferentSolutions)"
proof (cases rs)
  case Nil
  with two show ?thesis by simp
next
  case (Cons a rest)
  from all Cons obtain d where d: "ws_SolutionDir env ws a = Inr d" "d \<noteq> []" by auto
  have "\<exists>b\<in>set rest. ws_SolutionDir env ws b \<noteq> Inr d"
  proof (rule ccontr)
    assume "\<not> ?thesis"
    then have "\<forall>b\<in>set rs. ws_SolutionDir env ws b = Inr d" using Cons d by auto
    with two show False by auto
  qed
  with findExerciseDir_differ[of rest env ws d] all Cons d
  have "fst (findExerciseDir env ws d rest) = Inl (ErrorString msgDifferentSolutions)" by simp
  with Cons d show ?thesis
    by (simp del: findExerciseDir.simps add: findExerciseDir_Cons_ok)
qed

subsection \<open>collectDocuments\<close>

lemma collectDocuments_empty_step:
  assumes "os_Stat env file = Inr info" and "Size info = 0"
  shows "collectDocuments env root docs (file # rest) =
           apsnd (\<lambda>tr. EvStat file # EvErr (msgSkippingEmpty file) # tr)
             (collectDocuments env root docs rest)"
  using assms by (cases "collectDocuments env root docs rest") simp

lemma collectDocuments_doc_step:
  assumes "os_Stat env file = Inr info" and "Size info \<noteq> 0"
    and "workspace_NewDocument env root file = Inr doc"
  shows "collectDocuments env root docs (file # rest) =
           apsnd (\<lambda>tr. EvStat file # EvNewDocument root file # tr)
             (collectDocuments env root (docs @ [doc]) rest)"
  using assms by (cases "collectDocuments env root (docs @ [doc]) rest") simp

lemma collectDocuments_Inr:
  assumes "collectDocuments env root docs files = (Inr ds, tr)"
  shows "\<exists>new. ds = docs @ new \<and>
           map Inr new = map (workspace_NewDocument env root)
                           (filter (\<lambda>f. \<not> isEmptyFile env f) files) \<and>
           errWrites tr = map msgSkippingEmpty (filter (isEmptyFile env) files) \<and>
           outWrites tr = [] \<and>
           (\<forall>f\<in>set files. \<exists>info. os_Stat env f = Inr info)"
  using assms
proof (induction files arbitrary: docs tr)
  case Nil
  then show ?case by (simp add: ret_def)
next
  case (Cons f rest)
  from Cons.prems obtain info where st: "os_Stat env f = Inr info"
    by (cases "os_Stat env f") auto
  show ?case
  proof (cases "Size info = 0")
    case True
    from Cons.prems st True obtain tr' where
      rec: "collectDocuments env root docs rest = (Inr ds, tr')"
      and tr: "tr = EvStat f # EvErr (msgSkippingEmpty f) # tr'"
      by (cases "collectDocuments env root docs rest") (auto simp del: collectDocuments.simps simp: collectDocuments_empty_step)
    from Cons.IH[OF rec] st True tr show ?thesis by (auto simp: isEmptyFile_def)
  next
    case False
    from Cons.prems st False obtain doc where nd: "workspace_NewDocument env root f = Inr doc"
      by (cases "workspace_NewDocument env root f") auto
    from Cons.prems st False nd obtain tr' where
      rec: "collectDocuments env root (docs @ [doc]) rest = (Inr ds, tr')"
      and tr: "tr = EvStat f # EvNewDocument root f # tr'"
      by (cases "collectDocuments env root (docs @ [doc]) rest")
         (auto simp del: collectDocuments.simps simp: collectDocuments_doc_step)
    from Cons.IH[OF rec] st False nd tr show ?thesis by (auto simp: isEmptyFile_def)
  qed
qed


subsection \<open>writeParts and package\<close>

lemma escapeQuotes_files [simp]: "escapeQuotes ''files[]'' = ''files[]''"
  by (simp add: escapeQuotes_def escapeChar_def)

lemma escapeQuotes_plain:
  assumes "set s \<inter> {CHR 0x5C, CHR 0x22, CHR 0x0D, CHR 0x0A} = {}"
  shows "escapeQuotes s = s"
  using assms by (induction s) (auto simp: escapeQuotes_def escapeChar_def)

lemma appendToLast_snoc [simp]:
  "appendToLast (ps @ [p]) bs = ps @ [p\<lparr>content := content p @ bs\<rparr>]"
  by (induction ps bs rule: appendToLast.induct) auto

lemma writeParts_doc_step:
  assumes "fileBytes env (Filepath doc) = Some bs"
  shows "writeParts env w (doc # rest) =
           apsnd (\<lambda>tr. EvOpen (Filepath doc) # EvCreateFormFile ''files[]'' (Path doc)
                        # EvCopy bs # tr)
             (writeParts env
                (w\<lparr>wBody := (wBody w)\<lparr>bodyParts := bodyParts (wBody w) @
                   [\<lparr>fieldname = ''files[]'', filename = escapeQuotes (Path doc), content = bs\<rparr>]\<rparr>\<rparr>)
                rest)"
  using assms
  by (cases "writeParts env
                (w\<lparr>wBody := (wBody w)\<lparr>bodyParts := bodyParts (wBody w) @
                   [\<lparr>fieldname = ''files[]'', filename = escapeQuotes (Path doc), content = bs\<rparr>]\<rparr>\<rparr>)
                rest")
     (auto simp: fileBytes_def CreateFormFile_def io_Copy_def split: sum.splits osFile.splits)

lemma writeParts_Inr_fileBytes:
  assumes "writeParts env w (doc # rest) = (Inr w', tr)"
  shows "\<exists>bs. fileBytes env (Filepath doc) = Some bs"
  using assms
  by (auto simp: fileBytes_def CreateFormFile_def io_Copy_def split: sum.splits osFile.splits)

lemma writeParts_Inr:
  assumes "writeParts env w docs = (Inr w', tr)"
  shows "\<exists>ps. bodyParts (wBody w') = bodyParts (wBody w) @ ps \<and>
           map Some ps = map (docPart env) docs \<and>
           bodyTerminated (wBody w') = bodyTerminated (wBody w) \<and>
           wBoundary w' = wBoundary w"
  using assms
proof (induction docs arbitrary: w tr)
  case Nil
  then show ?case by (simp add: ret_def)
next
  case (Cons doc rest)
  from writeParts_Inr_fileBytes[OF Cons.prems] obtain bs where
    bs: "fileBytes env (Filepath doc) = Some bs" by blast
  define w1 where "w1 = w\<lparr>wBody := (wBody w)\<lparr>bodyParts := bodyParts (wBody w) @
                   [\<lparr>fieldname = ''files[]'', filename = escapeQuotes (Path doc), content = bs\<rparr>]\<rparr>\<rparr>"
  from Cons.prems obtain tr' where rec: "writeParts env w1 rest = (Inr w', tr')"
    unfolding writeParts_doc_step[OF bs] w1_def[symmetric]
    by (cases "writeParts env w1 rest") auto
  from Cons.IH[OF rec] obtain ps where
    ps: "bodyParts (wBody w') = bodyParts (wBody w1) @ ps"
        "map Some ps = map (docPart env) rest"
        "bodyTerminated (wBody w') = bodyTerminated (wBody w1)"
        "wBoundary w' = wBoundary w1"
    by blast
  have "bodyParts (wBody w') = bodyParts (wBody w) @
          (\<lparr>fieldname = ''files[]'', filename = escapeQuotes (Path doc), content = bs\<rparr> # ps)"
    using ps(1) by (simp add: w1_def)
  moreover have "map Some (\<lparr>fieldname = ''files[]'', filename = escapeQuotes (Path doc), content = bs\<rparr> # ps)
                   = map (docPart env) (doc # rest)"
    using ps(2) bs by (simp add: docPart_def)
  moreover have "bodyTerminated (wBody w') = bodyTerminated (wBody w)"
    using ps(3) by (simp add: w1_def)
  moreover have "wBoundary w' = wBoundary w"
    using ps(4) by (simp add: w1_def)
  ultimately show ?case by blast
qed

lemma writeParts_no_Close: "EvWriterClose b \<notin> set (snd (writeParts env w docs))"
proof (induction docs arbitrary: w)
  case Nil
  show ?case by simp
next
  case (Cons d docs)
  show ?case
  proof (cases "fileBytes env (Filepath d)")
    case None
    then show ?thesis
      by (auto simp: fileBytes_def CreateFormFile_def io_Copy_def
               split: sum.splits osFile.splits)
  next
    case (Some bs)
    obtain r t where rt: "writeParts env
                (w\<lparr>wBody := (wBody w)\<lparr>bodyParts := bodyParts (wBody w) @
                   [\<lparr>fieldname = ''files[]'', filename = escapeQuotes (Path d), content = bs\<rparr>]\<rparr>\<rparr>)
                docs = (r, t)"
      by (cases "writeParts env
                (w\<lparr>wBody := (wBody w)\<lparr>bodyParts := bodyParts (wBody w) @
                   [\<lparr>fieldname = ''files[]'', filename = escapeQuotes (Path d), content = bs\<rparr>]\<rparr>\<rparr>)
                docs") auto
    with Cons[of "w\<lparr>wBody := (wBody w)\<lparr>bodyParts := bodyParts (wBody w) @
                   [\<lparr>fieldname = ''files[]'', filename = escapeQuotes (Path d), content = bs\<rparr>]\<rparr>\<rparr>"]
    show ?thesis
      by (simp del: writeParts.simps add: writeParts_doc_step[OF Some])
  qed
qed

lemma package_Inr:
  assumes "package env docs = (Inr w, tr)"
  shows "map Some (bodyParts (wBody w)) = map (docPart env) docs \<and>
         bodyTerminated (wBody w) \<and> wBoundary w = randomBoundary env \<and>
         (\<exists>tr'. tr = EvNewWriter # tr' @ [EvWriterClose (wBody w)] \<and> kinds tr' \<subseteq> {Body} \<and>
                (\<forall>b. EvWriterClose b \<notin> set tr'))"
proof -
  obtain r t where wp: "writeParts env (NewWriter (randomBoundary env)) docs = (r, t)"
    by (cases "writeParts env (NewWriter (randomBoundary env)) docs") auto
  from assms wp obtain w1 where r: "r = Inr w1"
    by (cases r) (auto simp: package_def)
  from assms wp r have w: "w = w1\<lparr>wBody := (wBody w1)\<lparr>bodyTerminated := True\<rparr>\<rparr>"
    and tr: "tr = EvNewWriter # t @ [EvWriterClose ((wBody w1)\<lparr>bodyTerminated := True\<rparr>)]"
    by (auto simp: package_def Close_def)
  from writeParts_Inr[OF wp[unfolded r]] obtain ps where
    "bodyParts (wBody w1) = ps" "map Some ps = map (docPart env) docs"
    "wBoundary w1 = randomBoundary env"
    by (auto simp: NewWriter_def)
  moreover have "kinds t \<subseteq> {Body}"
    using kinds_writeParts[of env "NewWriter (randomBoundary env)" docs] wp by simp
  moreover have "\<forall>b. EvWriterClose b \<notin> set t"
    using writeParts_no_Close[of _ env "NewWriter (randomBoundary env)" docs] wp by simp
  ultimately show ?thesis using w tr by auto
qed

lemma kinds_package: "kinds (snd (package env docs)) \<subseteq> {Body}"
  unfolding package_def
  by (intro kinds_andThen kinds_emit kinds_writeParts; simp add: Close_def)

lemma kinds_collect: "kinds (snd (collect env dir rs)) \<subseteq> {Collection, Output}"
  unfolding collect_def
  by (intro kinds_andThen kinds_collectDocuments kinds_if; simp)

lemma kinds_locateSolution: "kinds (snd (locateSolution env args)) \<subseteq> {ArgPath, Metadata}"
proof -
  have a: "kinds (snd (resolveArgs env args)) \<subseteq> {ArgPath, Metadata}"
    using kinds_resolveArgs[of env args] by auto
  have b: "\<And>ws d rs. kinds (snd (findExerciseDir env ws d rs)) \<subseteq> {ArgPath, Metadata}"
    using kinds_findExerciseDir by fastforce
  show ?thesis
    unfolding locateSolution_def Let_def
    by (intro kinds_andThen kinds_call kinds_if a b; simp)
qed


subsection \<open>transmit\<close>

lemma kinds_transmit: "kinds (snd (transmit env sol w)) \<subseteq> {Network, Output}"
  unfolding transmit_def Let_def
  by (intro kinds_andThen kinds_call kinds_emit;
      simp add: client_NewRequest_def ReadFrom_def call_def split: option.splits response.splits sum.splits)


lemma transmit_Do_inv:
  assumes "EvDo req \<in> set (snd (transmit env sol w))"
  shows "\<exists>c post.
           api_NewClient env (GetString (UserViperConfig env) ''token'')
             (GetString (UserViperConfig env) ''apibaseurl'') = Inr c \<and>
           req = Header_Set
                 \<lparr>reqMethod = ''PATCH'',
                  reqURL = GetString (UserViperConfig env) ''apibaseurl'' @ ''/solutions/'' @ ID sol,
                  reqHeader = defaultHeader env c, reqBody = wBody w\<rparr>
                 ''Content-Type'' (FormDataContentType w) \<and>
           snd (transmit env sol w) =
             [EvNewClient (GetString (UserViperConfig env) ''token'')
                (GetString (UserViperConfig env) ''apibaseurl''),
              EvNewRequest ''PATCH''
                (GetString (UserViperConfig env) ''apibaseurl'' @ ''/solutions/'' @ ID sol) (wBody w),
              EvHeaderSet ''Content-Type'' (FormDataContentType w),
              EvDo req] @ post"
  using assms
  by (auto simp: transmit_def Let_def client_NewRequest_def ReadFrom_def emit_def call_def
           split: sum.splits option.splits response.splits)

lemma transmit_writes:
  "(fst (transmit env sol w) = Inr () \<longrightarrow>
      errWrites (snd (transmit env sol w)) =
        [msgSubmitted (if AutoApprove sol then suffixAutoApprove else suffixView)] \<and>
      outWrites (snd (transmit env sol w)) = [''    '' @ URL sol @ ''\<newline>\<newline>'']) \<and>
   (fst (transmit env sol w) \<noteq> Inr () \<longrightarrow>
      errWrites (snd (transmit env sol w)) = [] \<and> outWrites (snd (transmit env sol w)) = [])"
  by (auto simp: transmit_def Let_def client_NewRequest_def ReadFrom_def emit_def call_def
           split: sum.splits option.splits response.splits)

subsection \<open>runSubmit, block by block\<close>

lemma runSubmit_configured:
  assumes "GetString (UserViperConfig env) ''token'' \<noteq> []"
    and "GetString (UserViperConfig env) ''workspace'' \<noteq> []"
  shows "runSubmit env args =
           andThen (locateSolution env args) (\<lambda>(solution, exerciseDir, args).
           andThen (collect env exerciseDir args) (\<lambda>documents.
           andThen (package env documents) (\<lambda>writer.
             transmit env solution writer)))"
  using assms by (simp add: runSubmit_def Let_def)

lemma runSubmit_locate_fail:
  assumes "GetString (UserViperConfig env) ''token'' \<noteq> []"
    and "GetString (UserViperConfig env) ''workspace'' \<noteq> []"
    and "locateSolution env args = (Inl e, t1)"
  shows "runSubmit env args = (Inl e, t1)"
  using assms(3) by (simp add: runSubmit_configured[OF assms(1,2)])


lemma runSubmit_package_fail:
  assumes "GetString (UserViperConfig env) ''token'' \<noteq> []"
    and "GetString (UserViperConfig env) ''workspace'' \<noteq> []"
    and "locateSolution env args = (Inr (sol, dir, rs), t1)"
    and "collect env dir rs = (Inr docs, t2)"
    and "package env docs = (Inl e, t3)"
  shows "runSubmit env args = (Inl e, t1 @ t2 @ t3)"
  using assms(3,4,5) by (simp add: runSubmit_configured[OF assms(1,2)])

lemma runSubmit_transmit:
  assumes "GetString (UserViperConfig env) ''token'' \<noteq> []"
    and "GetString (UserViperConfig env) ''workspace'' \<noteq> []"
    and "locateSolution env args = (Inr (sol, dir, rs), t1)"
    and "collect env dir rs = (Inr docs, t2)"
    and "package env docs = (Inr w, t3)"
  shows "runSubmit env args = (fst (transmit env sol w), t1 @ t2 @ t3 @ snd (transmit env sol w))"
  using assms(3,4,5)
  by (cases "transmit env sol w") (simp add: runSubmit_configured[OF assms(1,2)])

lemma runSubmit_Network_inv:
  assumes "Network \<in> kinds (snd (runSubmit env args))"
  shows "\<exists>sol dir rs t1 docs t2 w t3.
           GetString (UserViperConfig env) ''token'' \<noteq> [] \<and>
           GetString (UserViperConfig env) ''workspace'' \<noteq> [] \<and>
           locateSolution env args = (Inr (sol, dir, rs), t1) \<and>
           collect env dir rs = (Inr docs, t2) \<and>
           package env docs = (Inr w, t3) \<and>
           runSubmit env args =
             (fst (transmit env sol w), t1 @ t2 @ t3 @ snd (transmit env sol w))"
proof -
  have tok: "GetString (UserViperConfig env) ''token'' \<noteq> []"
    using assms by (auto simp: runSubmit_def Let_def)
  have wsn: "GetString (UserViperConfig env) ''workspace'' \<noteq> []"
    using assms tok by (auto simp: runSubmit_def Let_def)
  note rs = runSubmit_configured[OF tok wsn]
  have n1: "Network \<notin> kinds (snd (locateSolution env args))"
    using kinds_locateSolution[of env args] by auto
  from andThen_kind_inv[OF assms[unfolded rs] n1] obtain x t1 where
    loc: "locateSolution env args = (Inr x, t1)"
    and k1: "Network \<in> kinds (snd ((\<lambda>(solution, exerciseDir, args).
           andThen (collect env exerciseDir args) (\<lambda>documents.
           andThen (package env documents) (\<lambda>writer.
             transmit env solution writer))) x))"
    by blast
  obtain sol dir rs' where x: "x = (sol, dir, rs')" by (cases x) auto
  have n2: "Network \<notin> kinds (snd (collect env dir rs'))"
    using kinds_collect[of env dir rs'] by auto
  from andThen_kind_inv[OF k1[unfolded x prod.case] n2] obtain docs t2 where
    col: "collect env dir rs' = (Inr docs, t2)"
    and k2: "Network \<in> kinds (snd (andThen (package env docs) (\<lambda>writer.
             transmit env sol writer)))"
    by blast
  have n3: "Network \<notin> kinds (snd (package env docs))"
    using kinds_package[of env docs] by auto
  from andThen_kind_inv[OF k2 n3] obtain w t3 where
    pk: "package env docs = (Inr w, t3)"
    by blast
  from runSubmit_transmit[OF tok wsn loc[unfolded x] col pk] tok wsn loc x col pk
  show ?thesis by blast
qed

subsection \<open>locateSolution\<close>

lemma resolveArgs_all_resolve:
  assumes "\<forall>a\<in>set args. \<exists>src. resolveArg env a = Some src"
  shows "fst (resolveArgs env args) = Inr (map (\<lambda>a. the (resolveArg env a)) args)"
  using assms by (subst resolveArgs_Inr) (auto simp: comp_def)

lemma locateSolution_steps:
  assumes "resolveArgs env args = (Inr rs, t1)"
    and "workspace_New env (GetString (UserViperConfig env) ''workspace'') = Inr ws"
  shows "locateSolution env args =
           apsnd ((@) (t1 @ [EvWorkspaceNew (GetString (UserViperConfig env) ''workspace'')]))
             (andThen (findExerciseDir env ws [] rs) (\<lambda>exerciseDir.
              andThen (call (EvNewSolution exerciseDir)
                         (workspace_NewSolution env exerciseDir)) (\<lambda>solution.
                if \<not> IsRequester solution
                then fail (ErrorString
                       (msgNotRequester (BinaryName env) (Exercise solution) (Track solution)))
                else ret (solution, exerciseDir, rs))))"
  using assms
  by (simp add: locateSolution_def Let_def split: prod.split)

lemma locateSolution_findDir_fail:
  assumes "resolveArgs env args = (Inr rs, t1)"
    and "workspace_New env (GetString (UserViperConfig env) ''workspace'') = Inr ws"
    and "findExerciseDir env ws [] rs = (Inl e, t2)"
  shows "locateSolution env args =
           (Inl e, t1 @ EvWorkspaceNew (GetString (UserViperConfig env) ''workspace'') # t2)"
  using assms(3) by (simp add: locateSolution_steps[OF assms(1,2)])

lemma locateSolution_not_requester:
  assumes "resolveArgs env args = (Inr rs, t1)"
    and "workspace_New env (GetString (UserViperConfig env) ''workspace'') = Inr ws"
    and "findExerciseDir env ws [] rs = (Inr dir, t2)"
    and "workspace_NewSolution env dir = Inr sol"
    and "\<not> IsRequester sol"
  shows "locateSolution env args =
           (Inl (ErrorString (msgNotRequester (BinaryName env) (Exercise sol) (Track sol))),
            t1 @ EvWorkspaceNew (GetString (UserViperConfig env) ''workspace'') # t2
               @ [EvNewSolution dir])"
  using assms(3,4,5) by (simp add: locateSolution_steps[OF assms(1,2)] fail_def)

lemma locateSolution_Inr:
  assumes "locateSolution env args = (Inr (sol, dir, rs), t)"
  shows "fst (resolveArgs env args) = Inr rs \<and> workspace_NewSolution env dir = Inr sol
         \<and> IsRequester sol"
proof -
  obtain r1 t1 where ra: "resolveArgs env args = (r1, t1)" by (cases "resolveArgs env args") auto
  with assms obtain rs' where r1: "r1 = Inr rs'"
    by (cases r1) (auto simp: locateSolution_def Let_def)
  obtain rw where rw: "workspace_New env (GetString (UserViperConfig env) ''workspace'') = rw"
    by simp
  with assms ra r1 obtain ws where ws: "rw = Inr ws"
    by (cases rw) (auto simp: locateSolution_def Let_def)
  note st = locateSolution_steps[OF ra[unfolded r1] rw[unfolded ws]]
  obtain r3 t3 where fd: "findExerciseDir env ws [] rs' = (r3, t3)"
    by (cases "findExerciseDir env ws [] rs'") auto
  with assms st obtain d where r3: "r3 = Inr d" by (cases r3) auto
  from assms st fd r3 show ?thesis
    using ra r1
    by (cases "workspace_NewSolution env d")
       (auto simp: fail_def ret_def split: if_splits)
qed

lemma resolveArgs_directory:
  assumes "filepath_Abs env a = Inr p" and "os_Lstat env p = Inr info" and "IsDir info"
  shows "resolveArgs env (a # rest) =
           (Inl (ErrorString (msgDirectory p (BinaryName env))), [EvAbs a, EvLstat p])"
  using assms by (simp add: lstatArg_def fail_def)

lemma resolveArgs_append:
  assumes "resolveArgs env pre = (Inr rs, t1)"
  shows "resolveArgs env (pre @ rest) =
           (map_sum id ((@) rs) (fst (resolveArgs env rest)), t1 @ snd (resolveArgs env rest))"
  using assms
proof (induction pre arbitrary: rs t1)
  case Nil
  then show ?case
    by (cases "resolveArgs env rest"; cases "fst (resolveArgs env rest)") (auto simp: ret_def)
next
  case (Cons a pre)
  from Cons.prems have "fst (resolveArgs env (a # pre)) = Inr rs" by simp
  then have m: "map (resolveArg env) (a # pre) = map Some rs" by (simp only: resolveArgs_Inr)
  then obtain src rs' where rs: "rs = src # rs'" and src: "resolveArg env a = Some src"
    and m': "map (resolveArg env) pre = map Some rs'"
    by (cases rs) auto
  from resolveArgs_Cons_ok[OF src, of pre] obtain p where
    p: "filepath_Abs env a = Inr p"
    and hd: "resolveArgs env (a # pre) =
             (map_sum id ((#) src) (fst (resolveArgs env pre)),
              EvAbs a # EvLstat p # EvEvalSymlinks p # snd (resolveArgs env pre))"
    by blast
  from m' have f': "fst (resolveArgs env pre) = Inr rs'" by (simp only: resolveArgs_Inr)
  then have pre: "resolveArgs env pre = (Inr rs', snd (resolveArgs env pre))"
    by (cases "resolveArgs env pre") simp
  from Cons.prems hd have t1: "t1 = EvAbs a # EvLstat p # EvEvalSymlinks p # snd (resolveArgs env pre)"
    by simp
  from resolveArgs_Cons_ok[OF src, of "pre @ rest"] p have
    "resolveArgs env (a # pre @ rest) =
       (map_sum id ((#) src) (fst (resolveArgs env (pre @ rest))),
        EvAbs a # EvLstat p # EvEvalSymlinks p # snd (resolveArgs env (pre @ rest)))"
    by auto
  then show ?case
    unfolding Cons.IH[OF pre] rs t1
    by (cases "fst (resolveArgs env rest)") auto
qed

lemma locateSolution_resolve_fail:
  assumes "resolveArgs env args = (Inl e, t)"
  shows "locateSolution env args = (Inl e, t)"
  using assms by (simp add: locateSolution_def Let_def)

subsection \<open>collect and the parts of the request\<close>


lemma collect_Inr:
  assumes "collect env dir rs = (Inr docs, t)"
  shows "docs \<noteq> [] \<and> collectDocuments env (exercise_Filepath env dir) [] rs = (Inr docs, t)"
proof -
  obtain r t' where cd: "collectDocuments env (exercise_Filepath env dir) [] rs = (r, t')"
    by (cases "collectDocuments env (exercise_Filepath env dir) [] rs") auto
  with assms show ?thesis
    by (cases r) (auto simp: collect_def fail_def ret_def split: if_splits)
qed


lemma filePart_docs:
  assumes "map Inr docs = map (workspace_NewDocument env root) fs"
  shows "map (filePart env root) fs = map (docPart env) docs"
  using assms
proof (induction fs arbitrary: docs)
  case Nil
  then show ?case by simp
next
  case (Cons f fs)
  then obtain d ds where "docs = d # ds" "workspace_NewDocument env root f = Inr d"
    "map Inr ds = map (workspace_NewDocument env root) fs"
    by (cases docs) auto
  with Cons.IH[of ds] show ?case by (simp add: filePart_def)
qed

lemma parts_are_docs:
  assumes "map Some ps = map (docPart env) docs"
  shows "list_all2 (\<lambda>d p. fieldname p = ''files[]'' \<and> filename p = escapeQuotes (Path d) \<and>
                       (set (Path d) \<inter> {CHR 0x5C, CHR 0x22, CHR 0x0D, CHR 0x0A} = {}
                          \<longrightarrow> filename p = Path d) \<and>
                       fileBytes env (Filepath d) = Some (content p)) docs ps"
  using assms
proof (induction docs arbitrary: ps)
  case Nil
  then show ?case by simp
next
  case (Cons d ds)
  then obtain p ps' where ps: "ps = p # ps'" "Some p = docPart env d"
    "map Some ps' = map (docPart env) ds"
    by (cases ps) auto
  from ps(2) have "fieldname p = ''files[]'' \<and> filename p = escapeQuotes (Path d) \<and>
                   fileBytes env (Filepath d) = Some (content p)"
    by (auto simp: docPart_def split: option.splits)
  then have "fieldname p = ''files[]'' \<and> filename p = escapeQuotes (Path d) \<and>
             (set (Path d) \<inter> {CHR 0x5C, CHR 0x22, CHR 0x0D, CHR 0x0A} = {}
                \<longrightarrow> filename p = Path d) \<and>
             fileBytes env (Filepath d) = Some (content p)"
    using escapeQuotes_plain[of "Path d"] by simp
  with Cons.IH[OF ps(3)] show ?case unfolding ps(1) list_all2_Cons by blast
qed

lemma map_Some_twice:
  assumes "map Some xs = A @ y # B @ y # C"
  shows "\<exists>x x1 x2 x3. y = Some x \<and> xs = x1 @ x # x2 @ x # x3"
proof -
  from assms obtain x1 r where 1: "xs = x1 @ r" "map Some r = y # B @ y # C"
    by (auto simp: map_eq_append_conv)
  from 1(2) obtain x r' where 2: "r = x # r'" "y = Some x" "map Some r' = B @ y # C"
    by (auto simp: map_eq_Cons_conv)
  from 2(3) obtain x2 r'' where 3: "r' = x2 @ r''" "map Some r'' = y # C"
    by (auto simp: map_eq_append_conv)
  from 3(2) 2(2) obtain x3 where 4: "r'' = x # x3"
    by (auto simp: map_eq_Cons_conv)
  from 1(1) 2(1,2) 3(1) 4 show ?thesis by auto
qed

lemma runSubmit_Do_inv:
  assumes "EvDo req \<in> set (snd (runSubmit env args))"
  shows "\<exists>sol dir rs t1 docs t2 w t3 c post.
           GetString (UserViperConfig env) ''token'' \<noteq> [] \<and>
           GetString (UserViperConfig env) ''workspace'' \<noteq> [] \<and>
           locateSolution env args = (Inr (sol, dir, rs), t1) \<and>
           collect env dir rs = (Inr docs, t2) \<and>
           package env docs = (Inr w, t3) \<and>
           api_NewClient env (GetString (UserViperConfig env) ''token'')
             (GetString (UserViperConfig env) ''apibaseurl'') = Inr c \<and>
           req = Header_Set
                 \<lparr>reqMethod = ''PATCH'',
                  reqURL = GetString (UserViperConfig env) ''apibaseurl'' @ ''/solutions/'' @ ID sol,
                  reqHeader = defaultHeader env c, reqBody = wBody w\<rparr>
                 ''Content-Type'' (FormDataContentType w) \<and>
           snd (runSubmit env args) =
             t1 @ t2 @ t3
             @ [EvNewClient (GetString (UserViperConfig env) ''token'')
                  (GetString (UserViperConfig env) ''apibaseurl''),
                EvNewRequest ''PATCH''
                  (GetString (UserViperConfig env) ''apibaseurl'' @ ''/solutions/'' @ ID sol)
                  (wBody w),
                EvHeaderSet ''Content-Type'' (FormDataContentType w),
                EvDo req] @ post"
proof -
  from assms have "kindOf (EvDo req) \<in> kinds (snd (runSubmit env args))"
    unfolding kinds_def by (rule imageI)
  then have "Network \<in> kinds (snd (runSubmit env args))" by simp
  from runSubmit_Network_inv[OF this] obtain sol dir rs t1 docs t2 w t3 where
    tok: "GetString (UserViperConfig env) ''token'' \<noteq> []"
    and wsn: "GetString (UserViperConfig env) ''workspace'' \<noteq> []"
    and loc: "locateSolution env args = (Inr (sol, dir, rs), t1)"
    and col: "collect env dir rs = (Inr docs, t2)"
    and pk: "package env docs = (Inr w, t3)"
    and run: "runSubmit env args =
                (fst (transmit env sol w), t1 @ t2 @ t3 @ snd (transmit env sol w))"
    by blast
  have "Network \<notin> kinds t1" using kinds_locateSolution[of env args] loc by auto
  moreover have "Network \<notin> kinds t2" using kinds_collect[of env dir rs] col by auto
  moreover have "Network \<notin> kinds t3" using kinds_package[of env docs] pk by auto
  ultimately have "EvDo req \<notin> set t1" "EvDo req \<notin> set t2" "EvDo req \<notin> set t3"
    unfolding kinds_def by force+
  with assms run have "EvDo req \<in> set (snd (transmit env sol w))" by simp
  from transmit_Do_inv[OF this] tok wsn loc col pk run show ?thesis by auto
qed

lemma request_parts:
  assumes "locateSolution env args = (Inr (sol, dir, rs), t1)"
    and "EvDo req \<in> set (snd (runSubmit env args))"
  shows "map Some (bodyParts (reqBody req)) =
           map (filePart env (exercise_Filepath env dir))
               (filter (\<lambda>f. \<not> isEmptyFile env f) rs)"
proof -
  from runSubmit_Do_inv[OF assms(2)] assms(1) obtain docs t2 w t3 where
    col: "collect env dir rs = (Inr docs, t2)"
    and pk: "package env docs = (Inr w, t3)"
    and req: "reqBody req = wBody w"
    by (auto simp: Header_Set_def)
  from collect_Inr[OF col] have
    cd: "collectDocuments env (exercise_Filepath env dir) [] rs = (Inr docs, t2)" by simp
  from collectDocuments_Inr[OF cd] have
    "map Inr docs = map (workspace_NewDocument env (exercise_Filepath env dir))
                      (filter (\<lambda>f. \<not> isEmptyFile env f) rs)"
    by auto
  from filePart_docs[OF this] package_Inr[OF pk] req show ?thesis by simp
qed

subsection \<open>From the environment to the packaged body\<close>

lemma findExerciseDir_same:
  assumes "\<forall>r\<in>set rs. ws_SolutionDir env ws r = Inr dir" and "acc = [] \<or> acc = dir"
  shows "fst (findExerciseDir env ws acc rs) = Inr (if rs = [] then acc else dir)"
  using assms
proof (induction rs arbitrary: acc)
  case Nil
  show ?case by simp
next
  case (Cons a rs)
  from Cons.prems have a: "ws_SolutionDir env ws a = Inr dir" by simp
  from Cons.IH[of dir] Cons.prems have "fst (findExerciseDir env ws dir rs) = Inr dir"
    by (simp split: if_splits)
  with Cons.prems(2) show ?case
    by (auto simp del: findExerciseDir.simps simp: findExerciseDir_Cons_ok[OF a])
qed

lemma map_eq_Some_all:
  assumes "map g xs = map Some ps" and "x \<in> set xs"
  shows "\<exists>p. g x = Some p"
proof -
  from assms(2) have "g x \<in> set (map g xs)" by simp
  then show ?thesis unfolding assms(1) by auto
qed

lemma collectDocuments_forward:
  assumes "\<forall>f\<in>set files. \<exists>info. os_Stat env f = Inr info"
    and "\<forall>f\<in>set files. \<not> isEmptyFile env f \<longrightarrow> (\<exists>d. workspace_NewDocument env root f = Inr d)"
  shows "\<exists>ds. fst (collectDocuments env root docs files) = Inr ds"
  using assms
proof (induction files arbitrary: docs)
  case Nil
  show ?case by simp
next
  case (Cons f rest)
  from Cons.prems(1) obtain info where st: "os_Stat env f = Inr info" by auto
  show ?case
  proof (cases "Size info = 0")
    case True
    from Cons.IH[of docs] Cons.prems show ?thesis
      by (simp del: collectDocuments.simps add: collectDocuments_empty_step[OF st True])
  next
    case False
    with st have "\<not> isEmptyFile env f" by (simp add: isEmptyFile_def)
    with Cons.prems(2) obtain d where d: "workspace_NewDocument env root f = Inr d" by auto
    from Cons.IH[of "docs @ [d]"] Cons.prems show ?thesis
      by (simp del: collectDocuments.simps add: collectDocuments_doc_step[OF st False d])
  qed
qed

lemma collect_some:
  assumes "collectDocuments env (exercise_Filepath env dir) [] rs = (Inr docs, t)"
    and "docs \<noteq> []"
  shows "collect env dir rs = (Inr docs, t)"
  using assms by (simp add: collect_def ret_def)

lemma writeParts_forward:
  assumes "\<forall>d\<in>set docs. \<exists>bs. fileBytes env (Filepath d) = Some bs"
  shows "\<exists>w'. fst (writeParts env w docs) = Inr w'"
  using assms
proof (induction docs arbitrary: w)
  case Nil
  show ?case by simp
next
  case (Cons d docs)
  from Cons.prems obtain bs where bs: "fileBytes env (Filepath d) = Some bs" by auto
  from Cons.prems have "\<forall>d\<in>set docs. \<exists>bs. fileBytes env (Filepath d) = Some bs" by simp
  from Cons.IH[OF this] show ?case
    by (simp del: writeParts.simps add: writeParts_doc_step[OF bs])
qed

lemma package_forward:
  assumes "\<forall>d\<in>set docs. \<exists>bs. fileBytes env (Filepath d) = Some bs"
  shows "\<exists>w t. package env docs = (Inr w, t)"
proof -
  from writeParts_forward[OF assms, of "NewWriter (randomBoundary env)"] obtain w1 t where
    "writeParts env (NewWriter (randomBoundary env)) docs = (Inr w1, t)"
    by (cases "writeParts env (NewWriter (randomBoundary env)) docs") auto
  then show ?thesis by (simp add: package_def Close_def)
qed

lemma docPart_fileBytes:
  assumes "docPart env d = Some p"
  shows "\<exists>bs. fileBytes env (Filepath d) = Some bs"
  using assms by (auto simp: docPart_def split: option.splits)

lemma transmit_reaches_Do:
  assumes "api_NewClient env (GetString (UserViperConfig env) ''token'')
             (GetString (UserViperConfig env) ''apibaseurl'') = Inr c"
    and "newRequestError env c ''PATCH''
           (GetString (UserViperConfig env) ''apibaseurl'' @ ''/solutions/'' @ ID sol) = None"
  shows "EvDo (Header_Set
                 \<lparr>reqMethod = ''PATCH'',
                  reqURL = GetString (UserViperConfig env) ''apibaseurl'' @ ''/solutions/'' @ ID sol,
                  reqHeader = defaultHeader env c, reqBody = wBody w\<rparr>
                 ''Content-Type'' (FormDataContentType w))
           \<in> set (snd (transmit env sol w))"
  using assms
  by (auto simp: transmit_def Let_def client_NewRequest_def ReadFrom_def emit_def call_def
           split: sum.splits response.splits)

lemma runSubmit_packages:
  assumes tok: "GetString (UserViperConfig env) ''token'' \<noteq> []"
    and wsn: "GetString (UserViperConfig env) ''workspace'' \<noteq> []"
    and res: "map (resolveArg env) args = map Some rs"
    and ws: "workspace_New env (GetString (UserViperConfig env) ''workspace'') = Inr ws"
    and sd: "\<forall>r\<in>set rs. ws_SolutionDir env ws r = Inr dir"
    and sol: "workspace_NewSolution env dir = Inr sol" "IsRequester sol"
    and st: "\<forall>r\<in>set rs. \<exists>info. os_Stat env r = Inr info"
    and parts: "map (filePart env (exercise_Filepath env dir))
                    (filter (\<lambda>f. \<not> isEmptyFile env f) rs) = map Some ps"
    and ne: "ps \<noteq> []"
  shows "\<exists>t1 docs t2 w t3.
           locateSolution env args = (Inr (sol, dir, rs), t1) \<and>
           collect env dir rs = (Inr docs, t2) \<and>
           package env docs = (Inr w, t3) \<and>
           wBody w = \<lparr>bodyParts = ps, bodyTerminated = True\<rparr> \<and>
           EvWriterClose (wBody w) \<in> set t3 \<and>
           runSubmit env args =
             (fst (transmit env sol w), t1 @ t2 @ t3 @ snd (transmit env sol w))"
proof -
  let ?root = "exercise_Filepath env dir"
  let ?fs = "filter (\<lambda>f. \<not> isEmptyFile env f) rs"
  from parts ne have "?fs \<noteq> []" by auto
  then have rsne: "rs \<noteq> []" by auto
  from res have "fst (resolveArgs env args) = Inr rs" by (simp only: resolveArgs_Inr)
  then obtain t1a where ra: "resolveArgs env args = (Inr rs, t1a)"
    by (cases "resolveArgs env args") simp
  from findExerciseDir_same[OF sd, of "[]"] rsne obtain t1b where
    fd: "findExerciseDir env ws [] rs = (Inr dir, t1b)"
    by (cases "findExerciseDir env ws [] rs") simp
  have loc: "locateSolution env args =
               (Inr (sol, dir, rs),
                (t1a @ [EvWorkspaceNew (GetString (UserViperConfig env) ''workspace'')])
                @ t1b @ [EvNewSolution dir])"
    using fd sol by (simp add: locateSolution_steps[OF ra ws] ret_def)
  have nd: "\<forall>f\<in>set rs. \<not> isEmptyFile env f \<longrightarrow>
              (\<exists>d. workspace_NewDocument env ?root f = Inr d)"
  proof (intro ballI impI)
    fix f assume "f \<in> set rs" "\<not> isEmptyFile env f"
    then have "f \<in> set ?fs" by simp
    from map_eq_Some_all[OF parts this] show "\<exists>d. workspace_NewDocument env ?root f = Inr d"
      by (auto simp: filePart_def split: sum.splits)
  qed
  from collectDocuments_forward[OF st nd, of "[]"] obtain docs t2 where
    cd: "collectDocuments env ?root [] rs = (Inr docs, t2)"
    by (cases "collectDocuments env ?root [] rs") auto
  from collectDocuments_Inr[OF cd] have "map Inr docs = map (workspace_NewDocument env ?root) ?fs"
    by auto
  from filePart_docs[OF this] parts have dp: "map (docPart env) docs = map Some ps" by simp
  then have "length docs = length ps" by (metis length_map)
  with ne have dne: "docs \<noteq> []" by auto
  note col = collect_some[OF cd dne]
  have "\<forall>d\<in>set docs. \<exists>bs. fileBytes env (Filepath d) = Some bs"
    using map_eq_Some_all[OF dp] docPart_fileBytes by blast
  from package_forward[OF this] obtain w t3 where pk: "package env docs = (Inr w, t3)" by blast
  from package_Inr[OF pk] dp obtain tr' where
    "map Some (bodyParts (wBody w)) = map Some ps" and fin: "bodyTerminated (wBody w)"
    and t3: "t3 = EvNewWriter # tr' @ [EvWriterClose (wBody w)]"
    by auto
  then have "bodyParts (wBody w) = ps" by (simp add: inj_map_eq_map)
  with fin have body: "wBody w = \<lparr>bodyParts = ps, bodyTerminated = True\<rparr>"
    by (cases "wBody w") simp
  have "EvWriterClose (wBody w) \<in> set t3" by (simp add: t3)
  with loc col pk body runSubmit_transmit[OF tok wsn loc col pk] show ?thesis by blast
qed

lemma runSubmit_Close_inv:
  assumes "EvWriterClose b \<in> set (snd (runSubmit env args))"
  shows "\<exists>sol dir rs t1 docs t2 w t3.
           locateSolution env args = (Inr (sol, dir, rs), t1) \<and>
           collect env dir rs = (Inr docs, t2) \<and>
           package env docs = (Inr w, t3) \<and> b = wBody w"
proof -
  have tok: "GetString (UserViperConfig env) ''token'' \<noteq> []"
    using assms by (auto simp: runSubmit_def Let_def fail_def)
  have wsn: "GetString (UserViperConfig env) ''workspace'' \<noteq> []"
    using assms tok by (auto simp: runSubmit_def Let_def fail_def)
  note rs = runSubmit_configured[OF tok wsn]
  have n1: "EvWriterClose b \<notin> set (snd (locateSolution env args))"
    using kinds_locateSolution[of env args] unfolding kinds_def by force
  from andThen_event_inv[OF assms[unfolded rs] n1] obtain x t1 where
    loc: "locateSolution env args = (Inr x, t1)"
    and k1: "EvWriterClose b \<in> set (snd ((\<lambda>(solution, exerciseDir, args).
           andThen (collect env exerciseDir args) (\<lambda>documents.
           andThen (package env documents) (\<lambda>writer.
             transmit env solution writer))) x))"
    by blast
  obtain sol dir rs' where x: "x = (sol, dir, rs')" by (cases x) auto
  have n2: "EvWriterClose b \<notin> set (snd (collect env dir rs'))"
    using kinds_collect[of env dir rs'] unfolding kinds_def by force
  from andThen_event_inv[OF k1[unfolded x prod.case] n2] obtain docs t2 where
    col: "collect env dir rs' = (Inr docs, t2)"
    and k2: "EvWriterClose b \<in> set (snd (andThen (package env docs) (\<lambda>writer.
             transmit env sol writer)))"
    by blast
  obtain r3 t3 where pk0: "package env docs = (r3, t3)" by (cases "package env docs") auto
  have n4: "\<And>w. EvWriterClose b \<notin> set (snd (transmit env sol w))"
    using kinds_transmit unfolding kinds_def by force
  show ?thesis
  proof (cases r3)
    case (Inl e)
    with pk0 k2 have "EvWriterClose b \<in> set t3" by simp
    moreover have "EvWriterClose b \<notin> set t3"
      using pk0 Inl writeParts_no_Close[of b env "NewWriter (randomBoundary env)" docs]
      by (cases "writeParts env (NewWriter (randomBoundary env)) docs";
          cases "fst (writeParts env (NewWriter (randomBoundary env)) docs)")
         (auto simp: package_def Close_def)
    ultimately show ?thesis by blast
  next
    case (Inr w)
    with pk0 have pk: "package env docs = (Inr w, t3)" by simp
    from package_Inr[OF pk] obtain tr' where
      t3: "t3 = EvNewWriter # tr' @ [EvWriterClose (wBody w)]"
      and k: "\<forall>b. EvWriterClose b \<notin> set tr'"
      by blast
    from k2 pk n4[of w] have "EvWriterClose b \<in> set t3" by (cases "transmit env sol w") auto
    with k have "b = wBody w" by (auto simp: t3)
    then show ?thesis using loc x col pk by blast
  qed
qed

lemma closed_body_parts:
  assumes "EvWriterClose b \<in> set (snd (runSubmit env args))"
  shows "\<exists>sol dir rs t1.
           locateSolution env args = (Inr (sol, dir, rs), t1) \<and>
           map Some rs = map (resolveArg env) args \<and>
           map Some (bodyParts b) =
             map (filePart env (exercise_Filepath env dir))
                 (filter (\<lambda>f. \<not> isEmptyFile env f) rs) \<and>
           bodyTerminated b"
proof -
  from runSubmit_Close_inv[OF assms] obtain sol dir rs t1 docs t2 w t3 where
    loc: "locateSolution env args = (Inr (sol, dir, rs), t1)"
    and col: "collect env dir rs = (Inr docs, t2)"
    and pk: "package env docs = (Inr w, t3)"
    and b: "b = wBody w"
    by blast
  from locateSolution_Inr[OF loc] have "fst (resolveArgs env args) = Inr rs" by simp
  then have a: "map Some rs = map (resolveArg env) args" by (simp only: resolveArgs_Inr)
  from collect_Inr[OF col] have
    cd: "collectDocuments env (exercise_Filepath env dir) [] rs = (Inr docs, t2)" by simp
  from collectDocuments_Inr[OF cd] have
    "map Inr docs = map (workspace_NewDocument env (exercise_Filepath env dir))
                      (filter (\<lambda>f. \<not> isEmptyFile env f) rs)"
    by auto
  from filePart_docs[OF this] package_Inr[OF pk] b loc a show ?thesis by auto
qed

lemma sent_body_was_closed:
  assumes "EvDo req \<in> set (snd (runSubmit env args))"
  shows "EvWriterClose (reqBody req) \<in> set (snd (runSubmit env args))"
proof -
  from runSubmit_Do_inv[OF assms] obtain t1 docs t2 w t3 tr where
    pk: "package env docs = (Inr w, t3)"
    and req: "reqBody req = wBody w"
    and tr: "snd (runSubmit env args) = t1 @ t2 @ t3 @ tr"
    by (auto simp: Header_Set_def)
  from package_Inr[OF pk] have "EvWriterClose (wBody w) \<in> set t3" by auto
  then show ?thesis by (simp add: tr req)
qed

subsection \<open>The concrete workspace\<close>

lemma demoEnv_fields [simp]:
  "UserViperConfig demoEnv = demoConfig"
  "BinaryName demoEnv = ''exercism''"
  "config_SettingsURL demoEnv = (\<lambda>u. ''https://exercism.io/my/settings'')"
  "filepath_Abs demoEnv = demoAbs"
  "os_Lstat demoEnv = demoLstat"
  "filepath_EvalSymlinks demoEnv = demoEvalSymlinks"
  "workspace_New demoEnv = (\<lambda>dir. Inr (Workspace dir))"
  "ws_SolutionDir demoEnv = demoSolutionDir"
  "exercise_Filepath demoEnv = (\<lambda>dir. dir)"
  "workspace_NewSolution demoEnv = demoNewSolution"
  "os_Stat demoEnv = demoStat"
  "workspace_NewDocument demoEnv = demoNewDocument"
  "os_Open demoEnv = demoOpen"
  "randomBoundary demoEnv = ''b0undary''"
  "api_NewClient demoEnv = (\<lambda>t u. Inr (Client t u))"
  "defaultHeader demoEnv = demoHeader"
  "newRequestError demoEnv = (\<lambda>c m u. None)"
  "client_Do demoEnv = (\<lambda>c r. Inr (Response (Inr ''{}'')))"
  by (simp_all add: demoEnv_def)

lemmas demo_defs = demoConfig_def demoOpen_def demoNewDocument_def demoNewSolution_def
  demoSolutionDir_def demoAbs_def demoStat_def demoEvalSymlinks_def demoLstat_def demoTarget_def
  demoInfo_def GetString_def

lemmas run_defs = runSubmit_def locateSolution_def collect_def package_def transmit_def
  lstatArg_def solutionDirArg_def CreateFormFile_def io_Copy_def Close_def NewWriter_def
  client_NewRequest_def Header_Set_def ReadFrom_def FormDataContentType_def
  os_IsNotExist_def workspace_IsMissingMetadata_def Let_def ret_def fail_def emit_def
  escapeQuotes_def escapeChar_def

lemma demo_configured:
  "GetString (UserViperConfig demoEnv) ''token'' \<noteq> []"
  "GetString (UserViperConfig demoEnv) ''workspace'' \<noteq> []"
  by (simp_all add: demo_defs)

lemma demo_locate:
  "locateSolution demoEnv demoArgs = (Inr (demoSolution, ''/ws/go/hello'', demoFiles), demoLocateTrace)"
  by (simp add: demoArgs_def demoFiles_def demoLocateTrace_def demoSolution_def demo_defs run_defs)

lemma demo_collect:
  "collect demoEnv ''/ws/go/hello'' demoFiles = (Inr [demoDoc, demoDoc], demoCollectTrace)"
  by (simp add: demoFiles_def demoDoc_def demoCollectTrace_def demo_defs run_defs)

lemma demo_package:
  "package demoEnv [demoDoc, demoDoc] = (Inr demoWriter, demoPackageTrace)"
  by (simp add: demoDoc_def demoWriter_def demoPart_def demoPackageTrace_def demo_defs run_defs)

lemma demo_transmit:
  "transmit demoEnv demoSolution demoWriter = (Inr (), demoTransmitTrace)"
  by (simp add: demoWriter_def demoSolution_def demoRequest_def demoTransmitTrace_def
        demo_defs run_defs)

lemma demo_run:
  "runSubmit demoEnv demoArgs =
     (Inr (), demoLocateTrace @ demoCollectTrace @ demoPackageTrace @ demoTransmitTrace)"
  using runSubmit_transmit[OF demo_configured demo_locate demo_collect demo_package]
  by (simp add: demo_transmit)

lemma demo_sent: "EvDo demoRequest \<in> set (snd (runSubmit demoEnv demoArgs))"
  by (simp add: demo_run demoTransmitTrace_def)

section \<open>The claims\<close>

text \<open>
  Claim C1. Let every argument pass lines 62 to 103 and have a solution directory, a
  non-empty path, and let two of the arguments have different directories. Then
  \<^verbatim>\<open>runSubmit\<close>, given the arguments in any order, returns the error "You are submitting
  files belonging to different solutions", and no event of its run belongs to the
  construction of the body or to the network. (The source keeps the directory seen so far
  in a string and reads the empty string as "none yet", which is why a directory is taken
  to be a non-empty path.)
\<close>

theorem different_solutions_rejected:
  assumes "GetString (UserViperConfig env) ''token'' \<noteq> []"
    and "GetString (UserViperConfig env) ''workspace'' \<noteq> []"
    and "workspace_New env (GetString (UserViperConfig env) ''workspace'') = Inr ws"
    and "\<forall>a\<in>set args. \<exists>d. argSolutionDir env ws a = Some d \<and> d \<noteq> []"
    and "a1 \<in> set args" and "a2 \<in> set args"
    and "argSolutionDir env ws a1 \<noteq> argSolutionDir env ws a2"
    and "mset args' = mset args"
  shows "fst (runSubmit env args') = Inl (ErrorString msgDifferentSolutions) \<and>
         Body \<notin> kinds (snd (runSubmit env args')) \<and>
         Network \<notin> kinds (snd (runSubmit env args'))"
proof -
  have same: "set args' = set args" using assms(8) by (rule mset_eq_setD)
  define rs where "rs = map (\<lambda>a. the (resolveArg env a)) args'"
  have res: "\<forall>a\<in>set args'. \<exists>src. resolveArg env a = Some src"
    using assms(4) same by (fastforce simp: argSolutionDir_def split: option.splits)
  obtain t1 where ra: "resolveArgs env args' = (Inr rs, t1)"
    using resolveArgs_all_resolve[OF res] by (cases "resolveArgs env args'") (simp add: rs_def)
  have dir_of: "ws_SolutionDir env ws (the (resolveArg env a)) = Inr d"
    if "argSolutionDir env ws a = Some d" for a d
    using that by (auto simp: argSolutionDir_def split: option.splits sum.splits)
  have all: "\<forall>r\<in>set rs. \<exists>d. ws_SolutionDir env ws r = Inr d \<and> d \<noteq> []"
    using assms(4) same dir_of by (fastforce simp: rs_def)
  obtain d1 d2 where d: "argSolutionDir env ws a1 = Some d1" "argSolutionDir env ws a2 = Some d2"
    using assms(4,5,6) by blast
  have r1: "the (resolveArg env a1) \<in> set rs" and r2: "the (resolveArg env a2) \<in> set rs"
    using assms(5,6) same by (auto simp: rs_def)
  have ne: "ws_SolutionDir env ws (the (resolveArg env a1))
              \<noteq> ws_SolutionDir env ws (the (resolveArg env a2))"
    using dir_of[OF d(1)] dir_of[OF d(2)] d assms(7) by simp
  obtain t2 where fd: "findExerciseDir env ws [] rs = (Inl (ErrorString msgDifferentSolutions), t2)"
    using findExerciseDir_two[OF all r1 r2 ne] by (cases "findExerciseDir env ws [] rs") simp
  note loc = locateSolution_findDir_fail[OF ra assms(3) fd]
  note run = runSubmit_locate_fail[OF assms(1,2) loc]
  have "kinds (snd (runSubmit env args')) \<subseteq> {ArgPath, Metadata}"
    using kinds_locateSolution[of env args'] by (simp add: run loc)
  then have "Body \<notin> kinds (snd (runSubmit env args'))"
    and "Network \<notin> kinds (snd (runSubmit env args'))"
    by auto
  then show ?thesis using run by simp
qed

theorem different_solutions_rejected_witness:
  "fst (runSubmit demoEnv [''hello.go'', ''/ws/rust/bob/lib.rs'']) =
     Inl (ErrorString msgDifferentSolutions) \<and>
   fst (runSubmit demoEnv [''/ws/rust/bob/lib.rs'', ''hello.go'']) =
     Inl (ErrorString msgDifferentSolutions) \<and>
   Network \<notin> kinds (snd (runSubmit demoEnv [''/ws/rust/bob/lib.rs'', ''hello.go'']))"
proof -
  have h1: "GetString (UserViperConfig demoEnv) ''token'' \<noteq> []"
    and h2: "GetString (UserViperConfig demoEnv) ''workspace'' \<noteq> []"
    by (simp_all add: demo_defs)
  have h3: "workspace_New demoEnv (GetString (UserViperConfig demoEnv) ''workspace'')
              = Inr (Workspace ''/ws'')"
    by (simp add: demo_defs)
  have d1: "argSolutionDir demoEnv (Workspace ''/ws'') ''hello.go'' = Some ''/ws/go/hello''"
    and d2: "argSolutionDir demoEnv (Workspace ''/ws'') ''/ws/rust/bob/lib.rs''
               = Some ''/ws/rust/bob''"
    by (simp_all add: argSolutionDir_def resolveArg_def demo_defs)
  have h4: "\<forall>a\<in>set [''hello.go'', ''/ws/rust/bob/lib.rs''].
              \<exists>d. argSolutionDir demoEnv (Workspace ''/ws'') a = Some d \<and> d \<noteq> []"
    using d1 d2 by simp
  have h5: "''hello.go'' \<in> set [''hello.go'', ''/ws/rust/bob/lib.rs'']"
    and h6: "''/ws/rust/bob/lib.rs'' \<in> set [''hello.go'', ''/ws/rust/bob/lib.rs'']"
    by simp_all
  have h7: "argSolutionDir demoEnv (Workspace ''/ws'') ''hello.go''
              \<noteq> argSolutionDir demoEnv (Workspace ''/ws'') ''/ws/rust/bob/lib.rs''"
    using d1 d2 by simp
  have p1: "mset [''hello.go'', ''/ws/rust/bob/lib.rs''] = mset [''hello.go'', ''/ws/rust/bob/lib.rs'']"
    by simp
  have p2: "mset [''/ws/rust/bob/lib.rs'', ''hello.go''] = mset [''hello.go'', ''/ws/rust/bob/lib.rs'']"
    by (simp add: add.commute)
  from different_solutions_rejected[OF h1 h2 h3 h4 h5 h6 h7 p1]
       different_solutions_rejected[OF h1 h2 h3 h4 h5 h6 h7 p2]
  show ?thesis by simp
qed



text \<open>
  Claim C3, as amended. When the file of every document can be opened and read, lines 185
  to 208 succeed. When they succeed on a list of documents, the body has one part for
  each document, in order: its field name is \<^verbatim>\<open>files[]\<close>; its declared filename is the
  \<^verbatim>\<open>Path()\<close> of the document as \<^verbatim>\<open>CreateFormFile\<close> writes it, with a backslash before
  every backslash and double quote and with \<^verbatim>\<open>%0D\<close> and \<^verbatim>\<open>%0A\<close> for a carriage return
  and a line feed, which is the \<^verbatim>\<open>Path()\<close> itself when it has none of these four
  characters; its content is what reading the file at the \<^verbatim>\<open>Filepath()\<close> of the document
  gives; and the closing boundary has been written. In a run of \<^verbatim>\<open>runSubmit\<close> that gives
  a request to \<^verbatim>\<open>client.Do\<close>, the body of that request is the body written for the
  collected documents, its Content-Type is \<^verbatim>\<open>multipart/form-data; boundary=\<close> with the
  boundary of the writer, and the events have the \<^verbatim>\<open>Close\<close> of the writer before every
  event of the network, the setting of the header among them. The claim as written has
  the declared filename equal to the path for every document; the run on the file with a
  line feed in its name, below, has \<^verbatim>\<open>a%0Ab.go\<close> declared.
\<close>

theorem packaged_body_one_part_per_document:
  "((\<forall>d\<in>set docs. \<exists>bs. fileBytes env (Filepath d) = Some bs) \<longrightarrow>
      (\<exists>w tr. package env docs = (Inr w, tr))) \<and>
   (\<forall>w tr. package env docs = (Inr w, tr) \<longrightarrow>
      list_all2 (\<lambda>d p. fieldname p = ''files[]'' \<and> filename p = escapeQuotes (Path d) \<and>
                         (set (Path d) \<inter> {CHR 0x5C, CHR 0x22, CHR 0x0D, CHR 0x0A} = {}
                            \<longrightarrow> filename p = Path d) \<and>
                         fileBytes env (Filepath d) = Some (content p))
        docs (bodyParts (wBody w)) \<and>
      length (bodyParts (wBody w)) = length docs \<and>
      bodyTerminated (wBody w)) \<and>
   (\<forall>req. EvDo req \<in> set (snd (runSubmit env args)) \<longrightarrow>
      (\<exists>sol dir rs t1 documents t2 w t3 post.
         locateSolution env args = (Inr (sol, dir, rs), t1) \<and>
         collect env dir rs = (Inr documents, t2) \<and>
         package env documents = (Inr w, EvNewWriter # t3 @ [EvWriterClose (wBody w)]) \<and>
         reqBody req = wBody w \<and>
         list_all2 (\<lambda>d p. fieldname p = ''files[]'' \<and> filename p = escapeQuotes (Path d) \<and>
                         (set (Path d) \<inter> {CHR 0x5C, CHR 0x22, CHR 0x0D, CHR 0x0A} = {}
                            \<longrightarrow> filename p = Path d) \<and>
                         fileBytes env (Filepath d) = Some (content p))
           documents (bodyParts (reqBody req)) \<and>
         bodyTerminated (reqBody req) \<and>
         reqHeader req ''Content-Type'' =
           Some (''multipart/form-data; boundary='' @ randomBoundary env) \<and>
         snd (runSubmit env args) =
           (t1 @ t2 @ EvNewWriter # t3) @ EvWriterClose (wBody w) # post \<and>
         Network \<notin> kinds (t1 @ t2 @ EvNewWriter # t3) \<and>
         EvHeaderSet ''Content-Type''
           (''multipart/form-data; boundary='' @ randomBoundary env) \<in> set post \<and>
         EvDo req \<in> set post))"
proof (intro conjI allI impI)
  assume "\<forall>d\<in>set docs. \<exists>bs. fileBytes env (Filepath d) = Some bs"
  then show "\<exists>w tr. package env docs = (Inr w, tr)" by (rule package_forward)
next
  fix w tr
  assume a: "package env docs = (Inr w, tr)"
  from package_Inr[OF a] have m: "map Some (bodyParts (wBody w)) = map (docPart env) docs"
    and t: "bodyTerminated (wBody w)"
    by simp_all
  show "list_all2 (\<lambda>d p. fieldname p = ''files[]'' \<and> filename p = escapeQuotes (Path d) \<and>
                         (set (Path d) \<inter> {CHR 0x5C, CHR 0x22, CHR 0x0D, CHR 0x0A} = {}
                            \<longrightarrow> filename p = Path d) \<and>
                         fileBytes env (Filepath d) = Some (content p))
        docs (bodyParts (wBody w))"
    by (rule parts_are_docs[OF m])
  show "length (bodyParts (wBody w)) = length docs" using m by (metis length_map)
  show "bodyTerminated (wBody w)" by (rule t)
next
  fix req
  assume a: "EvDo req \<in> set (snd (runSubmit env args))"
  from runSubmit_Do_inv[OF a] obtain sol dir rs t1 documents t2 w t3 c post where
    loc: "locateSolution env args = (Inr (sol, dir, rs), t1)"
    and col: "collect env dir rs = (Inr documents, t2)"
    and pk: "package env documents = (Inr w, t3)"
    and req: "req = Header_Set
                 \<lparr>reqMethod = ''PATCH'',
                  reqURL = GetString (UserViperConfig env) ''apibaseurl'' @ ''/solutions/'' @ ID sol,
                  reqHeader = defaultHeader env c, reqBody = wBody w\<rparr>
                 ''Content-Type'' (FormDataContentType w)"
    and tr: "snd (runSubmit env args) =
             t1 @ t2 @ t3
             @ [EvNewClient (GetString (UserViperConfig env) ''token'')
                  (GetString (UserViperConfig env) ''apibaseurl''),
                EvNewRequest ''PATCH''
                  (GetString (UserViperConfig env) ''apibaseurl'' @ ''/solutions/'' @ ID sol)
                  (wBody w),
                EvHeaderSet ''Content-Type'' (FormDataContentType w),
                EvDo req] @ post"
    by blast
  from package_Inr[OF pk] obtain t3' where
    m: "map Some (bodyParts (wBody w)) = map (docPart env) documents"
    and fin: "bodyTerminated (wBody w)"
    and bd: "wBoundary w = randomBoundary env"
    and t3: "t3 = EvNewWriter # t3' @ [EvWriterClose (wBody w)]"
    and k3: "kinds t3' \<subseteq> {Body}"
    by blast
  have ct: "FormDataContentType w = ''multipart/form-data; boundary='' @ randomBoundary env"
    by (simp add: FormDataContentType_def bd)
  have k1: "Network \<notin> kinds t1" using kinds_locateSolution[of env args] loc by auto
  have k2: "Network \<notin> kinds t2" using kinds_collect[of env dir rs] col by auto
  have body: "reqBody req = wBody w" by (simp add: req Header_Set_def)
  define post' where "post' =
     [EvNewClient (GetString (UserViperConfig env) ''token'')
                  (GetString (UserViperConfig env) ''apibaseurl''),
      EvNewRequest ''PATCH''
                  (GetString (UserViperConfig env) ''apibaseurl'' @ ''/solutions/'' @ ID sol)
                  (wBody w),
      EvHeaderSet ''Content-Type'' (FormDataContentType w),
      EvDo req] @ post"
  have "locateSolution env args = (Inr (sol, dir, rs), t1)" by (rule loc)
  moreover have "collect env dir rs = (Inr documents, t2)" by (rule col)
  moreover have "package env documents =
                   (Inr w, EvNewWriter # t3' @ [EvWriterClose (wBody w)])"
    using pk t3 by simp
  moreover have "reqBody req = wBody w" by (rule body)
  moreover have "list_all2 (\<lambda>d p. fieldname p = ''files[]'' \<and> filename p = escapeQuotes (Path d) \<and>
                         (set (Path d) \<inter> {CHR 0x5C, CHR 0x22, CHR 0x0D, CHR 0x0A} = {}
                            \<longrightarrow> filename p = Path d) \<and>
                         fileBytes env (Filepath d) = Some (content p))
           documents (bodyParts (reqBody req))"
    unfolding body by (rule parts_are_docs[OF m])
  moreover have "bodyTerminated (reqBody req)" using fin body by simp
  moreover have "reqHeader req ''Content-Type'' =
           Some (''multipart/form-data; boundary='' @ randomBoundary env)"
    by (simp add: req Header_Set_def ct)
  moreover have "snd (runSubmit env args) =
                   (t1 @ t2 @ EvNewWriter # t3') @ EvWriterClose (wBody w) # post'"
    by (simp add: tr t3 post'_def)
  moreover have "Network \<notin> kinds (t1 @ t2 @ EvNewWriter # t3')"
    using k1 k2 k3 by auto
  moreover have "EvHeaderSet ''Content-Type''
           (''multipart/form-data; boundary='' @ randomBoundary env) \<in> set post'"
    by (simp add: post'_def ct)
  moreover have "EvDo req \<in> set post'" by (simp add: post'_def)
  ultimately show "\<exists>sol dir rs t1 documents t2 w t3 post.
         locateSolution env args = (Inr (sol, dir, rs), t1) \<and>
         collect env dir rs = (Inr documents, t2) \<and>
         package env documents = (Inr w, EvNewWriter # t3 @ [EvWriterClose (wBody w)]) \<and>
         reqBody req = wBody w \<and>
         list_all2 (\<lambda>d p. fieldname p = ''files[]'' \<and> filename p = escapeQuotes (Path d) \<and>
                         (set (Path d) \<inter> {CHR 0x5C, CHR 0x22, CHR 0x0D, CHR 0x0A} = {}
                            \<longrightarrow> filename p = Path d) \<and>
                         fileBytes env (Filepath d) = Some (content p))
           documents (bodyParts (reqBody req)) \<and>
         bodyTerminated (reqBody req) \<and>
         reqHeader req ''Content-Type'' =
           Some (''multipart/form-data; boundary='' @ randomBoundary env) \<and>
         snd (runSubmit env args) =
           (t1 @ t2 @ EvNewWriter # t3) @ EvWriterClose (wBody w) # post \<and>
         Network \<notin> kinds (t1 @ t2 @ EvNewWriter # t3) \<and>
         EvHeaderSet ''Content-Type''
           (''multipart/form-data; boundary='' @ randomBoundary env) \<in> set post \<and>
         EvDo req \<in> set post"
    by blast
qed

theorem packaged_body_one_part_per_document_witness:
  "package demoEnv [demoDoc, demoDoc] = (Inr demoWriter, demoPackageTrace) \<and>
   list_all2 (\<lambda>d p. fieldname p = ''files[]'' \<and> filename p = escapeQuotes (Path d) \<and>
                         (set (Path d) \<inter> {CHR 0x5C, CHR 0x22, CHR 0x0D, CHR 0x0A} = {}
                            \<longrightarrow> filename p = Path d) \<and>
                         fileBytes demoEnv (Filepath d) = Some (content p))
     [demoDoc, demoDoc] (bodyParts (wBody demoWriter)) \<and>
   bodyParts (wBody demoWriter) = [demoPart, demoPart] \<and>
   bodyTerminated (wBody demoWriter) \<and>
   EvDo demoRequest \<in> set (snd (runSubmit demoEnv demoArgs)) \<and>
   reqHeader demoRequest ''Content-Type'' = Some ''multipart/form-data; boundary=b0undary'' \<and>
   bodyTerminated (reqBody demoRequest)"
proof -
  from packaged_body_one_part_per_document[of "[demoDoc, demoDoc]" demoEnv demoArgs]
    demo_package demo_sent
  have "list_all2 (\<lambda>d p. fieldname p = ''files[]'' \<and> filename p = escapeQuotes (Path d) \<and>
                         (set (Path d) \<inter> {CHR 0x5C, CHR 0x22, CHR 0x0D, CHR 0x0A} = {}
                            \<longrightarrow> filename p = Path d) \<and>
                         fileBytes demoEnv (Filepath d) = Some (content p))
          [demoDoc, demoDoc] (bodyParts (wBody demoWriter))"
    and "bodyTerminated (wBody demoWriter)"
    and "reqHeader demoRequest ''Content-Type'' =
           Some (''multipart/form-data; boundary='' @ randomBoundary demoEnv)"
    and "bodyTerminated (reqBody demoRequest)"
    by blast+
  moreover have "bodyParts (wBody demoWriter) = [demoPart, demoPart]"
    by (simp add: demoWriter_def)
  moreover have "reqHeader demoRequest ''Content-Type'' =
                   Some ''multipart/form-data; boundary=b0undary''"
    by (simp add: demoRequest_def)
  ultimately show ?thesis using demo_package demo_sent by blast
qed

text \<open>
  The run on the file whose name is \<^verbatim>\<open>a\<close>, a line feed and \<^verbatim>\<open>b.go\<close>: its document has that
  name as \<^verbatim>\<open>Path()\<close>, and the part written for it declares the filename \<^verbatim>\<open>a%0Ab.go\<close>.
\<close>

theorem filename_with_line_feed_is_escaped:
  "workspace_NewDocument demoEnv ''/ws/go/hello'' ''/ws/go/hello/a\<newline>b.go''
     = Inr demoLineFeedDoc \<and>
   Path demoLineFeedDoc = ''a\<newline>b.go'' \<and>
   package demoEnv [demoLineFeedDoc] =
     (Inr \<lparr>wBoundary = ''b0undary'',
           wBody = \<lparr>bodyParts = [demoLineFeedPart], bodyTerminated = True\<rparr>\<rparr>,
      [EvNewWriter, EvOpen ''/ws/go/hello/a\<newline>b.go'',
       EvCreateFormFile ''files[]'' ''a\<newline>b.go'', EvCopy ''x'',
       EvWriterClose \<lparr>bodyParts = [demoLineFeedPart], bodyTerminated = True\<rparr>]) \<and>
   EvWriterClose \<lparr>bodyParts = [demoLineFeedPart], bodyTerminated = True\<rparr>
     \<in> set (snd (runSubmit demoEnv [''a\<newline>b.go''])) \<and>
   filename demoLineFeedPart = ''a%0Ab.go'' \<and>
   filename demoLineFeedPart \<noteq> Path demoLineFeedDoc"
  by (simp add: demoLineFeedDoc_def demoLineFeedPart_def demoSolution_def demo_defs run_defs)

text \<open>
  Claim C4, as amended. An argument that \<^verbatim>\<open>os.Lstat\<close> reports as a directory is rejected:
  when the configuration is present and the arguments before it pass lines 62 to 103,
  \<^verbatim>\<open>runSubmit\<close> returns the error "You are submitting a directory", with the absolute
  path and the advice to change into the directory and to name the files. Nothing is
  read of the directory: the events end with the \<^verbatim>\<open>Lstat\<close> of the argument. The claim as
  written also covers an argument that is a symbolic link to a directory; that one is
  not a directory for \<^verbatim>\<open>Lstat\<close> and passes the check (see the run on \<^verbatim>\<open>sublink\<close> below).
\<close>

theorem directory_argument_rejected:
  assumes "GetString (UserViperConfig env) ''token'' \<noteq> []"
    and "GetString (UserViperConfig env) ''workspace'' \<noteq> []"
    and "resolveArgs env before = (Inr rs, t1)"
    and "filepath_Abs env a = Inr p"
    and "os_Lstat env p = Inr info"
    and "IsDir info"
  shows "runSubmit env (before @ a # after) =
           (Inl (ErrorString (msgDirectory p (BinaryName env))), t1 @ [EvAbs a, EvLstat p]) \<and>
         (\<exists>m1 m2 m3.
            msgDirectory p (BinaryName env) =
              m1 @ ''You are submitting a directory, which is not currently supported.''
              @ m2 @ p @ m3
              @ ''Please change into the directory and provide the path to the file(s) you wish to submit''
              @ ''\<newline>\<newline>        '' @ BinaryName env @ '' submit FILENAME''
              @ ''\<newline>\<newline>'' @ tab @ tab @ tab)"
proof -
  have "resolveArgs env (before @ a # after) =
          (Inl (ErrorString (msgDirectory p (BinaryName env))), t1 @ [EvAbs a, EvLstat p])"
    by (simp add: resolveArgs_append[OF assms(3)] resolveArgs_directory[OF assms(4,5,6)]
             del: resolveArgs.simps)
  from runSubmit_locate_fail[OF assms(1,2) locateSolution_resolve_fail[OF this]]
  have "runSubmit env (before @ a # after) =
          (Inl (ErrorString (msgDirectory p (BinaryName env))), t1 @ [EvAbs a, EvLstat p])" .
  moreover have "msgDirectory p (BinaryName env) =
              ''\<newline>\<newline>    '' @ ''You are submitting a directory, which is not currently supported.''
              @ ''\<newline>\<newline>        '' @ p @ ''\<newline>\<newline>    ''
              @ ''Please change into the directory and provide the path to the file(s) you wish to submit''
              @ ''\<newline>\<newline>        '' @ BinaryName env @ '' submit FILENAME''
              @ ''\<newline>\<newline>'' @ tab @ tab @ tab"
    by (simp add: msgDirectory_def)
  ultimately show ?thesis by blast
qed

theorem directory_argument_rejected_witness:
  "runSubmit demoEnv [''hello.go'', ''sub'', ''empty.go''] =
     (Inl (ErrorString (msgDirectory ''/ws/go/hello/sub'' ''exercism'')),
      [EvAbs ''hello.go'', EvLstat ''/ws/go/hello/hello.go'',
       EvEvalSymlinks ''/ws/go/hello/hello.go'',
       EvAbs ''sub'', EvLstat ''/ws/go/hello/sub''])"
proof -
  have h3: "resolveArgs demoEnv [''hello.go''] =
              (Inr [''/ws/go/hello/hello.go''],
               [EvAbs ''hello.go'', EvLstat ''/ws/go/hello/hello.go'',
                EvEvalSymlinks ''/ws/go/hello/hello.go''])"
    by (simp add: demo_defs run_defs)
  have h4: "filepath_Abs demoEnv ''sub'' = Inr ''/ws/go/hello/sub''"
    by (simp add: demo_defs)
  have h5: "os_Lstat demoEnv ''/ws/go/hello/sub'' = Inr \<lparr>IsDir = True, Size = 4096\<rparr>"
    by (simp add: demo_defs)
  have h6: "IsDir \<lparr>IsDir = True, Size = 4096\<rparr>" by simp
  from directory_argument_rejected[OF demo_configured h3 h4 h5 h6, of "[''empty.go'']"]
  show ?thesis by simp
qed

text \<open>
  The run on \<^verbatim>\<open>sublink\<close>, a symbolic link to the directory \<^verbatim>\<open>sub\<close>: \<^verbatim>\<open>Lstat\<close> reports the
  link, not a directory, the argument is resolved to \<^verbatim>\<open>sub\<close>, a document and a part are
  made for it, and the run ends with the error of reading a directory, not with
  the message for a directory.
\<close>

theorem symlink_to_directory_not_rejected_as_directory:
  "filepath_Abs demoEnv ''sublink'' = Inr ''/ws/go/hello/sublink'' \<and>
   filepath_EvalSymlinks demoEnv ''/ws/go/hello/sublink'' = Inr ''/ws/go/hello/sub'' \<and>
   os_Stat demoEnv ''/ws/go/hello/sublink'' = Inr \<lparr>IsDir = True, Size = 4096\<rparr> \<and>
   os_Lstat demoEnv ''/ws/go/hello/sublink'' = Inr \<lparr>IsDir = False, Size = 16\<rparr> \<and>
   runSubmit demoEnv [''sublink''] =
     (Inl (External (OtherError ''is a directory'')),
      [EvAbs ''sublink'', EvLstat ''/ws/go/hello/sublink'',
       EvEvalSymlinks ''/ws/go/hello/sublink'',
       EvWorkspaceNew ''/ws'', EvSolutionDir ''/ws/go/hello/sub'',
       EvNewSolution ''/ws/go/hello'',
       EvStat ''/ws/go/hello/sub'', EvNewDocument ''/ws/go/hello'' ''/ws/go/hello/sub'',
       EvNewWriter, EvOpen ''/ws/go/hello/sub'', EvCreateFormFile ''files[]'' ''sub'']) \<and>
   fst (runSubmit demoEnv [''sublink''])
     \<noteq> Inl (ErrorString (msgDirectory ''/ws/go/hello/sublink'' ''exercism'')) \<and>
   fst (runSubmit demoEnv [''sublink''])
     \<noteq> Inl (ErrorString (msgDirectory ''/ws/go/hello/sub'' ''exercism''))"
  by (simp add: demo_defs run_defs demoSolution_def)



text \<open>
  Claim C6. When the token is the empty string, \<^verbatim>\<open>runSubmit\<close> returns the error made from
  \<^verbatim>\<open>msgWelcomePleaseConfigure\<close>; when the token is set and the workspace is the empty
  string, it returns the error made from \<^verbatim>\<open>msgRerunConfigure\<close>. In both cases the list of
  events is empty: no argument has been looked at, nothing has been asked of the file
  system, nothing has been sent. (When both are empty the token is reported.)
\<close>

theorem missing_configuration_fails_first:
  "(GetString (UserViperConfig env) ''token'' = [] \<longrightarrow>
      runSubmit env args =
        (Inl (ErrWelcomePleaseConfigure
                (config_SettingsURL env (GetString (UserViperConfig env) ''apibaseurl''))
                (BinaryName env)), [])) \<and>
   (GetString (UserViperConfig env) ''token'' \<noteq> [] \<and>
    GetString (UserViperConfig env) ''workspace'' = [] \<longrightarrow>
      runSubmit env args = (Inl (ErrRerunConfigure (BinaryName env)), []))"
  by (simp add: runSubmit_def Let_def fail_def)

theorem missing_configuration_fails_first_witness:
  "runSubmit (demoEnv\<lparr>UserViperConfig := (\<lambda>key. [])\<rparr>) [''hello.go''] =
     (Inl (ErrWelcomePleaseConfigure ''https://exercism.io/my/settings'' ''exercism''), []) \<and>
   runSubmit (demoEnv\<lparr>UserViperConfig := (\<lambda>key. if key = ''token'' then ''secret'' else [])\<rparr>)
     [''hello.go''] = (Inl (ErrRerunConfigure ''exercism''), [])"
  using missing_configuration_fails_first
          [of "demoEnv\<lparr>UserViperConfig := (\<lambda>key. [])\<rparr>" "[''hello.go'']"]
        missing_configuration_fails_first
          [of "demoEnv\<lparr>UserViperConfig := (\<lambda>key. if key = ''token'' then ''secret'' else [])\<rparr>"
              "[''hello.go'']"]
  by (simp add: GetString_def)

text \<open>
  Claim C7. When everything before line 138 succeeds and the solution that was loaded has
  \<^verbatim>\<open>IsRequester\<close> false, \<^verbatim>\<open>runSubmit\<close> returns the error whose message contains
  \<^verbatim>\<open>download --exercise=\<close> and \<^verbatim>\<open>--track=\<close> filled with the exercise and the track of the
  solution, after the binary name. The events end with the loading of the solution:
  no file has been examined for collection, no body has been started, nothing has been sent.
\<close>

theorem not_requester_fails_before_collection:
  assumes "GetString (UserViperConfig env) ''token'' \<noteq> []"
    and "GetString (UserViperConfig env) ''workspace'' \<noteq> []"
    and "resolveArgs env args = (Inr rs, t1)"
    and "workspace_New env (GetString (UserViperConfig env) ''workspace'') = Inr ws"
    and "findExerciseDir env ws [] rs = (Inr dir, t2)"
    and "workspace_NewSolution env dir = Inr sol"
    and "\<not> IsRequester sol"
  shows "runSubmit env args =
           (Inl (ErrorString (msgNotRequester (BinaryName env) (Exercise sol) (Track sol))),
            t1 @ EvWorkspaceNew (GetString (UserViperConfig env) ''workspace'') # t2
               @ [EvNewSolution dir]) \<and>
         Collection \<notin> kinds (snd (runSubmit env args)) \<and>
         Body \<notin> kinds (snd (runSubmit env args)) \<and>
         Network \<notin> kinds (snd (runSubmit env args)) \<and>
         (\<exists>before after.
            msgNotRequester (BinaryName env) (Exercise sol) (Track sol) =
              before @ BinaryName env @ '' download --exercise='' @ Exercise sol
                @ '' --track='' @ Track sol @ after)"
proof -
  note loc = locateSolution_not_requester[OF assms(3-7)]
  note run = runSubmit_locate_fail[OF assms(1,2) loc]
  have "kinds (snd (runSubmit env args)) \<subseteq> {ArgPath, Metadata}"
    using kinds_locateSolution[of env args] by (simp add: run loc)
  then have "Collection \<notin> kinds (snd (runSubmit env args))"
    and "Body \<notin> kinds (snd (runSubmit env args))"
    and "Network \<notin> kinds (snd (runSubmit env args))"
    by auto
  moreover have "\<exists>before after.
            msgNotRequester (BinaryName env) (Exercise sol) (Track sol) =
              before @ BinaryName env @ '' download --exercise='' @ Exercise sol
                @ '' --track='' @ Track sol @ after"
    unfolding msgNotRequester_def by (metis append.assoc)
  ultimately show ?thesis using run by blast
qed

theorem not_requester_fails_before_collection_witness:
  "runSubmit demoEnv [''/ws/rust/bob/lib.rs''] =
     (Inl (ErrorString (msgNotRequester ''exercism'' ''bob'' ''rust'')),
      [EvAbs ''/ws/rust/bob/lib.rs'', EvLstat ''/ws/rust/bob/lib.rs'',
       EvEvalSymlinks ''/ws/rust/bob/lib.rs'', EvWorkspaceNew ''/ws'',
       EvSolutionDir ''/ws/rust/bob/lib.rs'', EvNewSolution ''/ws/rust/bob'']) \<and>
   Collection \<notin> kinds (snd (runSubmit demoEnv [''/ws/rust/bob/lib.rs''])) \<and>
   Network \<notin> kinds (snd (runSubmit demoEnv [''/ws/rust/bob/lib.rs'']))"
proof -
  have h1: "GetString (UserViperConfig demoEnv) ''token'' \<noteq> []"
    and h2: "GetString (UserViperConfig demoEnv) ''workspace'' \<noteq> []"
    by (simp_all add: demo_defs)
  have h3: "resolveArgs demoEnv [''/ws/rust/bob/lib.rs''] =
              (Inr [''/ws/rust/bob/lib.rs''],
               [EvAbs ''/ws/rust/bob/lib.rs'', EvLstat ''/ws/rust/bob/lib.rs'',
                EvEvalSymlinks ''/ws/rust/bob/lib.rs''])"
    by (simp add: demo_defs run_defs)
  have h4: "workspace_New demoEnv (GetString (UserViperConfig demoEnv) ''workspace'')
              = Inr (Workspace ''/ws'')"
    by (simp add: demo_defs)
  have h5: "findExerciseDir demoEnv (Workspace ''/ws'') [] [''/ws/rust/bob/lib.rs''] =
              (Inr ''/ws/rust/bob'', [EvSolutionDir ''/ws/rust/bob/lib.rs''])"
    by (simp add: demo_defs run_defs)
  have h6: "workspace_NewSolution demoEnv ''/ws/rust/bob'' =
              Inr \<lparr>ID = ''s2'', Exercise = ''bob'', Track = ''rust'', IsRequester = False,
                   AutoApprove = True, URL = ''https://exercism.io/my/solutions/s2''\<rparr>"
    by (simp add: demo_defs)
  from not_requester_fails_before_collection[OF h1 h2 h3 h4 h5 h6]
  show ?thesis by (simp add: demo_defs)
qed

text \<open>
  Claim C8. With no flag and no persisted value the API base URL of the effective
  configuration is \<^verbatim>\<open>https://api.exercism.com/v1\<close>. A key that a flag supplies resolves to
  the value of the flag, whatever is persisted for it; a key that no flag supplies and
  that is persisted resolves to the persisted value. The persisted token \<^verbatim>\<open>token-c\<close> and
  workspace \<^verbatim>\<open>/workspace-c\<close> with the one flag \<^verbatim>\<open>--token c\<close> give the token \<^verbatim>\<open>c\<close>, the
  workspace \<^verbatim>\<open>/workspace-c\<close> and the default API base URL, as the third case of
  \<^verbatim>\<open>TestConfigure\<close> expects.
\<close>

theorem config_precedence:
  "apiBaseURL (resolveConfig Map.empty Map.empty) = ''https://api.exercism.com/v1'' \<and>
   (\<forall>key v. flags key = Some v \<longrightarrow> resolveSetting flags persisted key = v) \<and>
   (\<forall>key v. flags key = None \<and> persisted key = Some v \<longrightarrow>
      resolveSetting flags persisted key = v) \<and>
   resolveConfig [''token'' \<mapsto> ''c'']
     [''token'' \<mapsto> ''token-c'', ''workspace'' \<mapsto> ''/workspace-c''] =
     \<lparr>token = ''c'', workspaceRoot = ''/workspace-c'',
      apiBaseURL = ''https://api.exercism.com/v1''\<rparr>"
  by (simp add: resolveConfig_def resolveSetting_def defaultSettings_def)

theorem config_precedence_witness:
  "resolveSetting [''token'' \<mapsto> ''c'']
     [''token'' \<mapsto> ''token-c'', ''workspace'' \<mapsto> ''/workspace-c''] ''token'' = ''c'' \<and>
   resolveSetting [''token'' \<mapsto> ''c'']
     [''token'' \<mapsto> ''token-c'', ''workspace'' \<mapsto> ''/workspace-c''] ''workspace''
     = ''/workspace-c''"
proof -
  have f1: "[''token'' \<mapsto> ''c''] ''token'' = Some ''c''" by simp
  have f2: "[''token'' \<mapsto> ''c''] ''workspace'' = None \<and>
            [''token'' \<mapsto> ''token-c'', ''workspace'' \<mapsto> ''/workspace-c''] ''workspace''
              = Some ''/workspace-c''"
    by simp
  from config_precedence[of "[''token'' \<mapsto> ''c'']"
         "[''token'' \<mapsto> ''token-c'', ''workspace'' \<mapsto> ''/workspace-c'']"] f1 f2
  show ?thesis by blast
qed

text \<open>
  Claim C9. Let the configuration be present, let every argument pass lines 62 to 103, let
  the workspace open and give the same solution directory for every resolved argument,
  let the solution load and belong to the account, let \<^verbatim>\<open>os.Stat\<close> succeed on every
  resolved argument, and let every resolved argument that is not an empty file have a
  document and readable bytes, \<^verbatim>\<open>ps\<close> being the parts of these files in the order of the
  arguments, one at least. Then \<^verbatim>\<open>runSubmit\<close> closes the writer on the body whose parts
  are \<^verbatim>\<open>ps\<close>, and when the client and the request can be made it gives \<^verbatim>\<open>client.Do\<close> a
  request with that body. In every run, whatever the environment, a body on which the
  writer is closed has as parts the parts of the resolved arguments that are not empty
  files, in the order of the arguments: the i-th part is the part of the i-th of them.
  And the body of every request given to \<^verbatim>\<open>client.Do\<close> is a body on which the writer was
  closed in that run.
\<close>

theorem parts_follow_argument_order:
  "(GetString (UserViperConfig env) ''token'' \<noteq> [] \<and>
    GetString (UserViperConfig env) ''workspace'' \<noteq> [] \<and>
    map (resolveArg env) args = map Some rs \<and>
    workspace_New env (GetString (UserViperConfig env) ''workspace'') = Inr ws \<and>
    (\<forall>r\<in>set rs. ws_SolutionDir env ws r = Inr dir) \<and>
    workspace_NewSolution env dir = Inr sol \<and> IsRequester sol \<and>
    (\<forall>r\<in>set rs. \<exists>info. os_Stat env r = Inr info) \<and>
    map (filePart env (exercise_Filepath env dir))
        (filter (\<lambda>f. \<not> isEmptyFile env f) rs) = map Some ps \<and>
    ps \<noteq> [] \<longrightarrow>
      EvWriterClose \<lparr>bodyParts = ps, bodyTerminated = True\<rparr> \<in> set (snd (runSubmit env args)) \<and>
      (\<forall>c. api_NewClient env (GetString (UserViperConfig env) ''token'')
              (GetString (UserViperConfig env) ''apibaseurl'') = Inr c \<and>
           newRequestError env c ''PATCH''
             (GetString (UserViperConfig env) ''apibaseurl'' @ ''/solutions/'' @ ID sol) = None
           \<longrightarrow> (\<exists>req. EvDo req \<in> set (snd (runSubmit env args)) \<and>
                      reqBody req = \<lparr>bodyParts = ps, bodyTerminated = True\<rparr>))) \<and>
   (\<forall>b. EvWriterClose b \<in> set (snd (runSubmit env args)) \<longrightarrow>
      (\<exists>sol' dir' rs' t1.
         locateSolution env args = (Inr (sol', dir', rs'), t1) \<and>
         map Some rs' = map (resolveArg env) args \<and>
         map Some (bodyParts b) =
           map (filePart env (exercise_Filepath env dir'))
               (filter (\<lambda>f. \<not> isEmptyFile env f) rs') \<and>
         length (bodyParts b) = length (filter (\<lambda>f. \<not> isEmptyFile env f) rs') \<and>
         (\<forall>i<length (bodyParts b).
            filePart env (exercise_Filepath env dir')
              (filter (\<lambda>f. \<not> isEmptyFile env f) rs' ! i) = Some (bodyParts b ! i)))) \<and>
   (\<forall>req. EvDo req \<in> set (snd (runSubmit env args)) \<longrightarrow>
      EvWriterClose (reqBody req) \<in> set (snd (runSubmit env args)))"
proof (intro conjI allI impI)
  assume h: "GetString (UserViperConfig env) ''token'' \<noteq> [] \<and>
    GetString (UserViperConfig env) ''workspace'' \<noteq> [] \<and>
    map (resolveArg env) args = map Some rs \<and>
    workspace_New env (GetString (UserViperConfig env) ''workspace'') = Inr ws \<and>
    (\<forall>r\<in>set rs. ws_SolutionDir env ws r = Inr dir) \<and>
    workspace_NewSolution env dir = Inr sol \<and> IsRequester sol \<and>
    (\<forall>r\<in>set rs. \<exists>info. os_Stat env r = Inr info) \<and>
    map (filePart env (exercise_Filepath env dir))
        (filter (\<lambda>f. \<not> isEmptyFile env f) rs) = map Some ps \<and>
    ps \<noteq> []"
  then have tok: "GetString (UserViperConfig env) ''token'' \<noteq> []"
    and wsn: "GetString (UserViperConfig env) ''workspace'' \<noteq> []"
    and res: "map (resolveArg env) args = map Some rs"
    and ws: "workspace_New env (GetString (UserViperConfig env) ''workspace'') = Inr ws"
    and sd: "\<forall>r\<in>set rs. ws_SolutionDir env ws r = Inr dir"
    and sol: "workspace_NewSolution env dir = Inr sol" "IsRequester sol"
    and st: "\<forall>r\<in>set rs. \<exists>info. os_Stat env r = Inr info"
    and parts: "map (filePart env (exercise_Filepath env dir))
                    (filter (\<lambda>f. \<not> isEmptyFile env f) rs) = map Some ps"
    and ne: "ps \<noteq> []"
    by blast+
  from runSubmit_packages[OF tok wsn res ws sd sol st parts ne] obtain t1 t2 w t3 where
    body: "wBody w = \<lparr>bodyParts = ps, bodyTerminated = True\<rparr>"
    and cl: "EvWriterClose (wBody w) \<in> set t3"
    and run: "runSubmit env args =
             (fst (transmit env sol w), t1 @ t2 @ t3 @ snd (transmit env sol w))"
    by blast
  show "EvWriterClose \<lparr>bodyParts = ps, bodyTerminated = True\<rparr> \<in> set (snd (runSubmit env args))"
    using cl by (simp add: run body)
  fix c
  assume c: "api_NewClient env (GetString (UserViperConfig env) ''token'')
              (GetString (UserViperConfig env) ''apibaseurl'') = Inr c \<and>
           newRequestError env c ''PATCH''
             (GetString (UserViperConfig env) ''apibaseurl'' @ ''/solutions/'' @ ID sol) = None"
  from transmit_reaches_Do[OF conjunct1[OF c] conjunct2[OF c], of w]
  have "EvDo (Header_Set
                 \<lparr>reqMethod = ''PATCH'',
                  reqURL = GetString (UserViperConfig env) ''apibaseurl'' @ ''/solutions/'' @ ID sol,
                  reqHeader = defaultHeader env c, reqBody = wBody w\<rparr>
                 ''Content-Type'' (FormDataContentType w))
           \<in> set (snd (runSubmit env args))"
    by (simp add: run)
  moreover have "reqBody (Header_Set
                 \<lparr>reqMethod = ''PATCH'',
                  reqURL = GetString (UserViperConfig env) ''apibaseurl'' @ ''/solutions/'' @ ID sol,
                  reqHeader = defaultHeader env c, reqBody = wBody w\<rparr>
                 ''Content-Type'' (FormDataContentType w))
                 = \<lparr>bodyParts = ps, bodyTerminated = True\<rparr>"
    by (simp add: Header_Set_def body)
  ultimately show "\<exists>req. EvDo req \<in> set (snd (runSubmit env args)) \<and>
                      reqBody req = \<lparr>bodyParts = ps, bodyTerminated = True\<rparr>"
    by blast
next
  fix b
  assume a: "EvWriterClose b \<in> set (snd (runSubmit env args))"
  from closed_body_parts[OF a] obtain sol' dir' rs' t1 where
    loc: "locateSolution env args = (Inr (sol', dir', rs'), t1)"
    and rs: "map Some rs' = map (resolveArg env) args"
    and m: "map Some (bodyParts b) =
           map (filePart env (exercise_Filepath env dir'))
               (filter (\<lambda>f. \<not> isEmptyFile env f) rs')"
    by blast
  have l: "length (bodyParts b) = length (filter (\<lambda>f. \<not> isEmptyFile env f) rs')"
    using m by (metis length_map)
  have "filePart env (exercise_Filepath env dir')
              (filter (\<lambda>f. \<not> isEmptyFile env f) rs' ! i) = Some (bodyParts b ! i)"
    if "i < length (bodyParts b)" for i
  proof -
    have "map Some (bodyParts b) ! i =
            map (filePart env (exercise_Filepath env dir'))
               (filter (\<lambda>f. \<not> isEmptyFile env f) rs') ! i"
      by (simp only: m)
    with that l show ?thesis by simp
  qed
  with loc rs m l show "\<exists>sol' dir' rs' t1.
         locateSolution env args = (Inr (sol', dir', rs'), t1) \<and>
         map Some rs' = map (resolveArg env) args \<and>
         map Some (bodyParts b) =
           map (filePart env (exercise_Filepath env dir'))
               (filter (\<lambda>f. \<not> isEmptyFile env f) rs') \<and>
         length (bodyParts b) = length (filter (\<lambda>f. \<not> isEmptyFile env f) rs') \<and>
         (\<forall>i<length (bodyParts b).
            filePart env (exercise_Filepath env dir')
              (filter (\<lambda>f. \<not> isEmptyFile env f) rs' ! i) = Some (bodyParts b ! i))"
    by blast
next
  fix req
  assume "EvDo req \<in> set (snd (runSubmit env args))"
  then show "EvWriterClose (reqBody req) \<in> set (snd (runSubmit env args))"
    by (rule sent_body_was_closed)
qed

theorem parts_follow_argument_order_witness:
  "EvWriterClose \<lparr>bodyParts = [demoTestPart, demoPart], bodyTerminated = True\<rparr>
     \<in> set (snd (runSubmit demoEnv [''hello_test.go'', ''empty.go'', ''hello.go''])) \<and>
   EvWriterClose \<lparr>bodyParts = [demoPart, demoTestPart], bodyTerminated = True\<rparr>
     \<in> set (snd (runSubmit demoEnv [''hello.go'', ''empty.go'', ''hello_test.go''])) \<and>
   EvDo demoOrderRequest
     \<in> set (snd (runSubmit demoEnv [''hello_test.go'', ''empty.go'', ''hello.go''])) \<and>
   reqBody demoOrderRequest = \<lparr>bodyParts = [demoTestPart, demoPart], bodyTerminated = True\<rparr> \<and>
   demoTestPart \<noteq> demoPart"
proof -
  let ?h = "''/ws/go/hello/hello.go''" and ?t = "''/ws/go/hello/hello_test.go''"
  let ?e = "''/ws/go/hello/empty.go''"
  have ws: "workspace_New demoEnv (GetString (UserViperConfig demoEnv) ''workspace'')
              = Inr (Workspace ''/ws'')"
    by (simp add: demo_defs)
  have sol: "workspace_NewSolution demoEnv ''/ws/go/hello'' = Inr demoSolution"
    "IsRequester demoSolution"
    by (simp_all add: demo_defs demoSolution_def)
  have r1: "map (resolveArg demoEnv) [''hello_test.go'', ''empty.go'', ''hello.go'']
              = map Some [?t, ?e, ?h]"
    and r2: "map (resolveArg demoEnv) [''hello.go'', ''empty.go'', ''hello_test.go'']
              = map Some [?h, ?e, ?t]"
    by (simp_all add: resolveArg_def demo_defs)
  have sd1: "\<forall>r\<in>set [?t, ?e, ?h]. ws_SolutionDir demoEnv (Workspace ''/ws'') r = Inr ''/ws/go/hello''"
    and sd2: "\<forall>r\<in>set [?h, ?e, ?t]. ws_SolutionDir demoEnv (Workspace ''/ws'') r = Inr ''/ws/go/hello''"
    by (simp_all add: demo_defs)
  have st1: "\<forall>r\<in>set [?t, ?e, ?h]. \<exists>info. os_Stat demoEnv r = Inr info"
    and st2: "\<forall>r\<in>set [?h, ?e, ?t]. \<exists>info. os_Stat demoEnv r = Inr info"
    by (simp_all add: demo_defs)
  have fp: "filePart demoEnv ''/ws/go/hello'' ?h = Some demoPart"
    "filePart demoEnv ''/ws/go/hello'' ?t = Some demoTestPart"
    by (simp_all add: filePart_def docPart_def fileBytes_def demoPart_def demoTestPart_def
          escapeQuotes_def escapeChar_def demo_defs)
  have em: "\<not> isEmptyFile demoEnv ?h" "\<not> isEmptyFile demoEnv ?t" "isEmptyFile demoEnv ?e"
    by (simp_all add: isEmptyFile_def demo_defs)
  have p1: "map (filePart demoEnv (exercise_Filepath demoEnv ''/ws/go/hello''))
              (filter (\<lambda>f. \<not> isEmptyFile demoEnv f) [?t, ?e, ?h]) = map Some [demoTestPart, demoPart]"
    and p2: "map (filePart demoEnv (exercise_Filepath demoEnv ''/ws/go/hello''))
              (filter (\<lambda>f. \<not> isEmptyFile demoEnv f) [?h, ?e, ?t]) = map Some [demoPart, demoTestPart]"
    using fp em by simp_all
  have ne: "[demoTestPart, demoPart] \<noteq> []" "[demoPart, demoTestPart] \<noteq> []" by simp_all
  from parts_follow_argument_order
         [of demoEnv "[''hello_test.go'', ''empty.go'', ''hello.go'']" "[?t, ?e, ?h]"
             "Workspace ''/ws''" "''/ws/go/hello''" demoSolution "[demoTestPart, demoPart]"]
       demo_configured r1 ws sd1 sol st1 p1 ne
  have a: "EvWriterClose \<lparr>bodyParts = [demoTestPart, demoPart], bodyTerminated = True\<rparr>
     \<in> set (snd (runSubmit demoEnv [''hello_test.go'', ''empty.go'', ''hello.go'']))"
    by blast
  from parts_follow_argument_order
         [of demoEnv "[''hello.go'', ''empty.go'', ''hello_test.go'']" "[?h, ?e, ?t]"
             "Workspace ''/ws''" "''/ws/go/hello''" demoSolution "[demoPart, demoTestPart]"]
       demo_configured r2 ws sd2 sol st2 p2 ne
  have b: "EvWriterClose \<lparr>bodyParts = [demoPart, demoTestPart], bodyTerminated = True\<rparr>
     \<in> set (snd (runSubmit demoEnv [''hello.go'', ''empty.go'', ''hello_test.go'']))"
    by blast
  have c: "EvDo demoOrderRequest
     \<in> set (snd (runSubmit demoEnv [''hello_test.go'', ''empty.go'', ''hello.go'']))"
    by (simp add: demoOrderRequest_def demoPart_def demoTestPart_def demoSolution_def
          demo_defs run_defs)
  have d: "demoTestPart \<noteq> demoPart" by (simp add: demoPart_def demoTestPart_def)
  from a b c d show ?thesis by (simp add: demoOrderRequest_def)
qed

text \<open>
  Claim C10. Let the configuration be present, let every argument pass lines 62 to 103,
  two of them, at different positions, resolving to the same file (the same argument
  twice, or two symbolic links to one file), which is not empty. Let the workspace open
  and give the same solution directory for every resolved argument, let the solution load
  and belong to the account, let \<^verbatim>\<open>os.Stat\<close> succeed on every resolved argument, let every
  resolved argument that is not an empty file have a document and readable bytes, and let
  the client and the request be made. Then the file has a part, \<^verbatim>\<open>runSubmit\<close> closes the
  writer on a body that contains this part at two positions (the same field name, filename
  and content twice), nothing having been removed, and it gives \<^verbatim>\<open>client.Do\<close> a request
  with that body.
\<close>

theorem duplicate_arguments_are_sent_twice:
  assumes "GetString (UserViperConfig env) ''token'' \<noteq> []"
    and "GetString (UserViperConfig env) ''workspace'' \<noteq> []"
    and "map (resolveArg env) (as1 @ a # as2 @ b # as3) = map Some rs"
    and "resolveArg env a = Some f"
    and "resolveArg env b = Some f"
    and "\<not> isEmptyFile env f"
    and "workspace_New env (GetString (UserViperConfig env) ''workspace'') = Inr ws"
    and "\<forall>r\<in>set rs. ws_SolutionDir env ws r = Inr dir"
    and "workspace_NewSolution env dir = Inr sol"
    and "IsRequester sol"
    and "\<forall>r\<in>set rs. \<exists>info. os_Stat env r = Inr info"
    and "map (filePart env (exercise_Filepath env dir))
             (filter (\<lambda>f. \<not> isEmptyFile env f) rs) = map Some ps"
    and "api_NewClient env (GetString (UserViperConfig env) ''token'')
           (GetString (UserViperConfig env) ''apibaseurl'') = Inr c"
    and "newRequestError env c ''PATCH''
           (GetString (UserViperConfig env) ''apibaseurl'' @ ''/solutions/'' @ ID sol) = None"
  shows "\<exists>p ps1 ps2 ps3 req.
           filePart env (exercise_Filepath env dir) f = Some p \<and>
           ps = ps1 @ p # ps2 @ p # ps3 \<and>
           EvWriterClose \<lparr>bodyParts = ps1 @ p # ps2 @ p # ps3, bodyTerminated = True\<rparr>
             \<in> set (snd (runSubmit env (as1 @ a # as2 @ b # as3))) \<and>
           EvDo req \<in> set (snd (runSubmit env (as1 @ a # as2 @ b # as3))) \<and>
           reqBody req = \<lparr>bodyParts = ps1 @ p # ps2 @ p # ps3, bodyTerminated = True\<rparr>"
proof -
  let ?P = "\<lambda>f. \<not> isEmptyFile env f"
  let ?g = "filePart env (exercise_Filepath env dir)"
  let ?args = "as1 @ a # as2 @ b # as3"
  have "map Some rs = map (resolveArg env) as1 @ Some f # map (resolveArg env) as2
                           @ Some f # map (resolveArg env) as3"
    using assms(3,4,5) by simp
  from map_Some_twice[OF this] obtain r1 r2 r3 where rs: "rs = r1 @ f # r2 @ f # r3"
    by auto
  have "map Some ps =
          map ?g (filter ?P r1) @ ?g f # map ?g (filter ?P r2) @ ?g f # map ?g (filter ?P r3)"
    using assms(6,12) by (simp add: rs)
  from map_Some_twice[OF this] obtain p ps1 ps2 ps3 where
    p: "?g f = Some p" and ps: "ps = ps1 @ p # ps2 @ p # ps3"
    by blast
  then have ne: "ps \<noteq> []" by simp
  from runSubmit_packages[OF assms(1,2,3,7,8,9,10,11,12) ne] obtain t1 t2 w t3 where
    body: "wBody w = \<lparr>bodyParts = ps, bodyTerminated = True\<rparr>"
    and cl: "EvWriterClose (wBody w) \<in> set t3"
    and run: "runSubmit env ?args =
             (fst (transmit env sol w), t1 @ t2 @ t3 @ snd (transmit env sol w))"
    by blast
  have 1: "EvWriterClose \<lparr>bodyParts = ps1 @ p # ps2 @ p # ps3, bodyTerminated = True\<rparr>
             \<in> set (snd (runSubmit env ?args))"
    using cl by (simp add: run body ps)
  from transmit_reaches_Do[OF assms(13,14), of w]
  have 2: "EvDo (Header_Set
                 \<lparr>reqMethod = ''PATCH'',
                  reqURL = GetString (UserViperConfig env) ''apibaseurl'' @ ''/solutions/'' @ ID sol,
                  reqHeader = defaultHeader env c, reqBody = wBody w\<rparr>
                 ''Content-Type'' (FormDataContentType w))
           \<in> set (snd (runSubmit env ?args))"
    by (simp add: run)
  have 3: "reqBody (Header_Set
                 \<lparr>reqMethod = ''PATCH'',
                  reqURL = GetString (UserViperConfig env) ''apibaseurl'' @ ''/solutions/'' @ ID sol,
                  reqHeader = defaultHeader env c, reqBody = wBody w\<rparr>
                 ''Content-Type'' (FormDataContentType w))
                 = \<lparr>bodyParts = ps1 @ p # ps2 @ p # ps3, bodyTerminated = True\<rparr>"
    by (simp add: Header_Set_def body ps)
  from p ps 1 2 3 show ?thesis by blast
qed

theorem duplicate_arguments_are_sent_twice_witness:
  "resolveArg demoEnv ''hello.go'' = Some ''/ws/go/hello/hello.go'' \<and>
   resolveArg demoEnv ''link.go'' = Some ''/ws/go/hello/hello.go'' \<and>
   filePart demoEnv ''/ws/go/hello'' ''/ws/go/hello/hello.go'' = Some demoPart \<and>
   EvWriterClose \<lparr>bodyParts = [demoPart, demoPart], bodyTerminated = True\<rparr>
     \<in> set (snd (runSubmit demoEnv [''hello.go'', ''empty.go'', ''link.go''])) \<and>
   (\<exists>req. EvDo req \<in> set (snd (runSubmit demoEnv [''hello.go'', ''empty.go'', ''link.go''])) \<and>
          reqBody req = \<lparr>bodyParts = [demoPart, demoPart], bodyTerminated = True\<rparr>) \<and>
   EvDo demoRequest \<in> set (snd (runSubmit demoEnv [''hello.go'', ''empty.go'', ''link.go''])) \<and>
   reqBody demoRequest = \<lparr>bodyParts = [demoPart, demoPart], bodyTerminated = True\<rparr>"
proof -
  let ?h = "''/ws/go/hello/hello.go''" and ?e = "''/ws/go/hello/empty.go''"
  have h3: "map (resolveArg demoEnv) ([] @ ''hello.go'' # [''empty.go''] @ ''link.go'' # [])
              = map Some [?h, ?e, ?h]"
    and h4: "resolveArg demoEnv ''hello.go'' = Some ?h"
    and h5: "resolveArg demoEnv ''link.go'' = Some ?h"
    by (simp_all add: resolveArg_def demo_defs)
  have em: "\<not> isEmptyFile demoEnv ?h" "isEmptyFile demoEnv ?e"
    by (simp_all add: isEmptyFile_def demo_defs)
  have h7: "workspace_New demoEnv (GetString (UserViperConfig demoEnv) ''workspace'')
              = Inr (Workspace ''/ws'')"
    by (simp add: demo_defs)
  have h8: "\<forall>r\<in>set [?h, ?e, ?h]. ws_SolutionDir demoEnv (Workspace ''/ws'') r = Inr ''/ws/go/hello''"
    by (simp add: demo_defs)
  have h9: "workspace_NewSolution demoEnv ''/ws/go/hello'' = Inr demoSolution"
    and h10: "IsRequester demoSolution"
    by (simp_all add: demo_defs demoSolution_def)
  have h11: "\<forall>r\<in>set [?h, ?e, ?h]. \<exists>info. os_Stat demoEnv r = Inr info"
    by (simp add: demo_defs)
  have fp: "filePart demoEnv ''/ws/go/hello'' ?h = Some demoPart"
    by (simp add: filePart_def docPart_def fileBytes_def demoPart_def
          escapeQuotes_def escapeChar_def demo_defs)
  have h12: "map (filePart demoEnv (exercise_Filepath demoEnv ''/ws/go/hello''))
               (filter (\<lambda>f. \<not> isEmptyFile demoEnv f) [?h, ?e, ?h]) = map Some [demoPart, demoPart]"
    using fp em by simp
  have h13: "api_NewClient demoEnv (GetString (UserViperConfig demoEnv) ''token'')
              (GetString (UserViperConfig demoEnv) ''apibaseurl'')
            = Inr (Client ''secret'' ''https://api.exercism.com/v1'')"
    by (simp add: demo_defs)
  have h14: "newRequestError demoEnv (Client ''secret'' ''https://api.exercism.com/v1'') ''PATCH''
              (GetString (UserViperConfig demoEnv) ''apibaseurl'' @ ''/solutions/''
                 @ ID demoSolution) = None"
    by simp
  from duplicate_arguments_are_sent_twice
         [OF demo_configured h3 h4 h5 em(1) h7 h8 h9 h10 h11 h12 h13 h14]
  obtain p ps1 ps2 ps3 req where
    "[demoPart, demoPart] = ps1 @ p # ps2 @ p # ps3"
    "EvWriterClose \<lparr>bodyParts = ps1 @ p # ps2 @ p # ps3, bodyTerminated = True\<rparr>
       \<in> set (snd (runSubmit demoEnv ([] @ ''hello.go'' # [''empty.go''] @ ''link.go'' # [])))"
    "EvDo req \<in> set (snd (runSubmit demoEnv ([] @ ''hello.go'' # [''empty.go''] @ ''link.go'' # [])))"
    "reqBody req = \<lparr>bodyParts = ps1 @ p # ps2 @ p # ps3, bodyTerminated = True\<rparr>"
    by blast
  then have "EvWriterClose \<lparr>bodyParts = [demoPart, demoPart], bodyTerminated = True\<rparr>
       \<in> set (snd (runSubmit demoEnv [''hello.go'', ''empty.go'', ''link.go'']))"
    and "\<exists>req. EvDo req \<in> set (snd (runSubmit demoEnv [''hello.go'', ''empty.go'', ''link.go''])) \<and>
          reqBody req = \<lparr>bodyParts = [demoPart, demoPart], bodyTerminated = True\<rparr>"
    by auto
  moreover have "EvDo demoRequest
                   \<in> set (snd (runSubmit demoEnv [''hello.go'', ''empty.go'', ''link.go'']))"
    using demo_sent by (simp add: demoArgs_def)
  moreover have "reqBody demoRequest = \<lparr>bodyParts = [demoPart, demoPart], bodyTerminated = True\<rparr>"
    by (simp add: demoRequest_def)
  ultimately show ?thesis using h4 h5 fp by blast
qed

end
